theory Spec2Isabelle
  imports Complex_Main
begin

section \<open>BetSwirl action provider: input schemas\<close>

text \<open>
  The action provider validates a loosely typed request with zod schemas
  (\<^verbatim>\<open>schemas.ts\<close>) and then runs a linear pipeline of contract reads, one HTTP
  call, one transaction and a polling loop (\<^verbatim>\<open>utils/betswirl.ts\<close>,
  \<^verbatim>\<open>betSwirlActionProvider.ts\<close>).

  A request is a JavaScript value. Numbers are modelled as reals: \<^verbatim>\<open>z.number()\<close>
  refuses NaN, and every numeric field below carries an upper and a lower bound, which
  refuse the two infinities.
\<close>

datatype jsvalue =
    JUndefined
  | JNull
  | JBool bool
  | JNum real
  | JStr string
  | JArr "jsvalue list"
  | JObj "(string \<times> jsvalue) list"

text \<open>Reading a property: a missing key reads as \<^verbatim>\<open>undefined\<close>.\<close>

definition get_prop :: "jsvalue \<Rightarrow> string \<Rightarrow> jsvalue" where
  "get_prop v k = (case v of
       JObj kvs \<Rightarrow> (case map_of kvs k of None \<Rightarrow> JUndefined | Some x \<Rightarrow> x)
     | _ \<Rightarrow> JUndefined)"

definition is_object :: "jsvalue \<Rightarrow> bool" where
  "is_object v = (case v of JObj kvs \<Rightarrow> True | _ \<Rightarrow> False)"

subsection \<open>The two regular expressions\<close>

text \<open>The character class \<^verbatim>\<open>[a-fA-F0-9]\<close>.\<close>

definition is_hex_digit :: "char \<Rightarrow> bool" where
  "is_hex_digit c = (c \<in> set ''0123456789abcdefABCDEF'')"

text \<open>\<^verbatim>\<open>[a-fA-F0-9]{n}\<close> at the head of a string: the rest of the string after
  exactly \<open>n\<close> hexadecimal digits, if they are there.\<close>

fun hex_run :: "nat \<Rightarrow> string \<Rightarrow> string option" where
  "hex_run 0 s = Some s"
| "hex_run (Suc n) [] = None"
| "hex_run (Suc n) (c # s) = (if is_hex_digit c then hex_run n s else None)"

text \<open>\<^verbatim>\<open>0x[a-fA-F0-9]{n}\<close> at the head of a string.\<close>

definition match_0x_hex :: "nat \<Rightarrow> string \<Rightarrow> string option" where
  "match_0x_hex n s = (case s of
       c0 # c1 # r \<Rightarrow> (if c0 = CHR ''0'' \<and> c1 = CHR ''x'' then hex_run n r else None)
     | _ \<Rightarrow> None)"

text \<open>\<^verbatim>\<open>/^0x[a-fA-F0-9]{40}$/\<close>: anchored at both ends (no \<^verbatim>\<open>m\<close> flag, so
  \<^verbatim>\<open>$\<close> is the end of the input).\<close>

definition address_regex :: "string \<Rightarrow> bool" where
  "address_regex s = (match_0x_hex 40 s = Some [])"

text \<open>\<^verbatim>\<open>/0x[0-9a-fA-F]{64}/\<close>: no anchor, so \<^verbatim>\<open>test\<close> tries every start
  position and ignores what follows the match.\<close>

fun hash_regex :: "string \<Rightarrow> bool" where
  "hash_regex [] = False"
| "hash_regex (c # s) = (match_0x_hex 64 (c # s) \<noteq> None \<or> hash_regex s)"

subsection \<open>The zod combinators that the schemas use\<close>

definition z_string :: "jsvalue \<Rightarrow> string option" where
  "z_string v = (case v of JStr s \<Rightarrow> Some s | _ \<Rightarrow> None)"

definition z_number :: "jsvalue \<Rightarrow> real option" where
  "z_number v = (case v of JNum x \<Rightarrow> Some x | _ \<Rightarrow> None)"

definition z_refine :: "('a \<Rightarrow> bool) \<Rightarrow> (jsvalue \<Rightarrow> 'a option) \<Rightarrow> jsvalue \<Rightarrow> 'a option" where
  "z_refine ok p v = (case p v of None \<Rightarrow> None | Some x \<Rightarrow> if ok x then Some x else None)"

definition z_optional :: "(jsvalue \<Rightarrow> 'a option) \<Rightarrow> jsvalue \<Rightarrow> 'a option option" where
  "z_optional p v = (case v of JUndefined \<Rightarrow> Some None | _ \<Rightarrow> map_option Some (p v))"

definition z_default :: "'a \<Rightarrow> (jsvalue \<Rightarrow> 'a option) \<Rightarrow> jsvalue \<Rightarrow> 'a option" where
  "z_default d p v = (case v of JUndefined \<Rightarrow> Some d | _ \<Rightarrow> p v)"



subsection \<open>Constants of the casino SDK\<close>

datatype CASINO_GAME_TYPE = COINTOSS | DICE | ROULETTE | KENO

datatype COINTOSS_FACE = HEADS | TAILS

text \<open>
  The bounds are constants of \<^verbatim>\<open>@betswirl/sdk-core\<close>, which the repository imports
  and does not contain; the schemas are read against any value of them.
\<close>

record sdk_constants =
  MIN_SELECTABLE_DICE_NUMBER :: real
  MAX_SELECTABLE_DICE_NUMBER :: real
  MIN_SELECTABLE_ROULETTE_NUMBER :: real
  MAX_SELECTABLE_ROULETTE_NUMBER :: real
  maxGameBetCountByType :: "CASINO_GAME_TYPE \<Rightarrow> real"
  CASINO_GAME_TYPE_of :: "string \<Rightarrow> CASINO_GAME_TYPE option"

text \<open>\<^verbatim>\<open>z.nativeEnum(COINTOSS_FACE)\<close>: the enum's two string values.\<close>

definition z_face :: "jsvalue \<Rightarrow> COINTOSS_FACE option" where
  "z_face v = (case v of
       JStr s \<Rightarrow> (if s = ''HEADS'' then Some HEADS else if s = ''TAILS'' then Some TAILS else None)
     | _ \<Rightarrow> None)"

definition z_game :: "sdk_constants \<Rightarrow> jsvalue \<Rightarrow> CASINO_GAME_TYPE option" where
  "z_game k v = (case v of JStr s \<Rightarrow> CASINO_GAME_TYPE_of k s | _ \<Rightarrow> None)"

subsection \<open>The schemas\<close>

definition hexAddress :: "jsvalue \<Rightarrow> string option" where
  "hexAddress = z_refine address_regex z_string"

record casino_bet_args =
  betAmount :: string
  token :: "string option"
  stopGain :: "string option"
  stopLoss :: "string option"
  receiver :: "string option"
  betCount :: "real option"

text \<open>\<^verbatim>\<open>z.number().positive().max(maxGameBetCountByType[game]).default(1).optional()\<close>:
  the outer \<^verbatim>\<open>optional\<close> answers \<^verbatim>\<open>undefined\<close> before the default is looked at.\<close>

definition getMaxBetCountParam :: "sdk_constants \<Rightarrow> CASINO_GAME_TYPE \<Rightarrow> jsvalue \<Rightarrow> real option option" where
  "getMaxBetCountParam k game =
     z_optional (z_default 1
       (z_refine (\<lambda>x. x \<le> maxGameBetCountByType k game) (z_refine (\<lambda>x. 0 < x) z_number)))"

text \<open>The fields every bet schema spreads in: \<^verbatim>\<open>casinoBetParams\<close> and the bet count.\<close>

definition casinoBetParams :: "sdk_constants \<Rightarrow> CASINO_GAME_TYPE \<Rightarrow> jsvalue \<Rightarrow> casino_bet_args option" where
  "casinoBetParams k game v =
     (case z_string (get_prop v ''betAmount'') of None \<Rightarrow> None | Some a \<Rightarrow>
      case z_optional z_string (get_prop v ''token'') of None \<Rightarrow> None | Some t \<Rightarrow>
      case z_optional z_string (get_prop v ''stopGain'') of None \<Rightarrow> None | Some g \<Rightarrow>
      case z_optional z_string (get_prop v ''stopLoss'') of None \<Rightarrow> None | Some l \<Rightarrow>
      case z_optional hexAddress (get_prop v ''receiver'') of None \<Rightarrow> None | Some r \<Rightarrow>
      case getMaxBetCountParam k game (get_prop v ''betCount'') of None \<Rightarrow> None | Some n \<Rightarrow>
        Some \<lparr>betAmount = a, token = t, stopGain = g, stopLoss = l, receiver = r, betCount = n\<rparr>)"

record coin_toss_args = casino_bet_args +
  face :: COINTOSS_FACE

record dice_args = casino_bet_args +
  number :: real

record roulette_args = casino_bet_args +
  numbers :: "real list"

definition CoinTossSchema :: "sdk_constants \<Rightarrow> jsvalue \<Rightarrow> coin_toss_args option" where
  "CoinTossSchema k v =
     (if \<not> is_object v then None else
      case z_face (get_prop v ''face'') of None \<Rightarrow> None | Some f \<Rightarrow>
      case casinoBetParams k COINTOSS v of None \<Rightarrow> None | Some c \<Rightarrow>
        Some (casino_bet_args.extend c \<lparr>face = f\<rparr>))"



record get_bet_args =
  hash :: string

definition GetBetSchema :: "jsvalue \<Rightarrow> get_bet_args option" where
  "GetBetSchema v =
     (if \<not> is_object v then None else
      case z_refine hash_regex z_string (get_prop v ''hash'') of
        None \<Rightarrow> None | Some h \<Rightarrow> Some \<lparr>hash = h\<rparr>)"

record get_bets_args =
  bettor :: "string option"
  game :: "CASINO_GAME_TYPE option"

definition GetBetsSchema :: "sdk_constants \<Rightarrow> jsvalue \<Rightarrow> get_bets_args option" where
  "GetBetsSchema k v =
     (if \<not> is_object v then None else
      case z_optional hexAddress (get_prop v ''bettor'') of None \<Rightarrow> None | Some b \<Rightarrow>
      case z_optional (z_game k) (get_prop v ''game'') of None \<Rightarrow> None | Some g \<Rightarrow>
        Some \<lparr>bettor = b, game = g\<rparr>)"

section \<open>The environment of an action\<close>

text \<open>
  A thrown value carries the two properties that \<^verbatim>\<open>Error.prototype.toString\<close> reads;
  \<^verbatim>\<open>new Error(m)\<close> has the name \<^verbatim>\<open>Error\<close>. A template literal \<^verbatim>\<open>${error}\<close>
  is that \<^verbatim>\<open>toString\<close>.
\<close>

datatype thrown = Thrown (error_name: string) (error_message: string)

definition Error :: "string \<Rightarrow> thrown" where
  "Error m = Thrown ''Error'' m"

definition toString :: "thrown \<Rightarrow> string" where
  "toString e =
     (if error_name e = [] then error_message e
      else if error_message e = [] then error_name e
      else error_name e @ '': '' @ error_message e)"

text \<open>\<^verbatim>\<open>try { ... } catch (error) { throw new Error(`prefix${error}`) }\<close>\<close>

definition catch_rethrow :: "string \<Rightarrow> thrown + 'a \<Rightarrow> thrown + 'a" where
  "catch_rethrow prefix r = (case r of Inl e \<Rightarrow> Inl (Error (prefix @ toString e)) | Inr v \<Rightarrow> Inr v)"

text \<open>\<^verbatim>\<open>Array.prototype.join\<close> and the decimal text of a bigint.\<close>

fun join :: "string \<Rightarrow> string list \<Rightarrow> string" where
  "join sep [] = []"
| "join sep [x] = x"
| "join sep (x # y # ys) = x @ sep @ join sep (y # ys)"

fun nat_toString :: "nat \<Rightarrow> string" where
  "nat_toString n =
     (if n < 10 then [char_of (48 + n)]
      else nat_toString (n div 10) @ [char_of (48 + n mod 10)])"

declare nat_toString.simps [simp del]

definition bigint_toString :: "int \<Rightarrow> string" where
  "bigint_toString i = (if i < 0 then CHR ''-'' # nat_toString (nat (- i)) else nat_toString (nat i))"

text \<open>Division of bigints truncates towards zero; the divisor here is never zero.\<close>

definition bigint_div :: "int \<Rightarrow> int \<Rightarrow> int" where
  "bigint_div a b = sgn a * sgn b * (\<bar>a\<bar> div \<bar>b\<bar>)"

subsection \<open>Data of the SDK\<close>

text \<open>
  The chain id is kept as the string the wallet reports: \<^verbatim>\<open>Number(chainId)\<close> only
  serves as a key into tables of the SDK, which are parameters here.
\<close>

type_synonym chain_id = string

record Token =
  symbol :: string
  address :: string
  decimals :: nat

record native_currency =
  currency_name :: string
  currency_symbol :: string
  currency_decimals :: nat

record casino_chain =
  nativeCurrency :: native_currency

text \<open>A raw token of the bank contract; \<^verbatim>\<open>rawToken.token.allowed\<close> and
  \<^verbatim>\<open>rawToken.token.paused\<close> are flattened.\<close>

record RawCasinoToken =
  raw_symbol :: string
  raw_tokenAddress :: string
  raw_decimals :: nat
  raw_allowed :: bool
  raw_paused :: bool

type_synonym RawBetRequirements = "bool \<times> int \<times> int"

record BetRequirements =
  isAllowed :: bool
  maxBetAmount :: int
  maxBetCount :: real

text \<open>The encoded input of a game, kept symbolic: what \<^verbatim>\<open>CoinToss.encodeInput\<close>,
  \<^verbatim>\<open>Dice.encodeInput\<close> and \<^verbatim>\<open>Roulette.encodeInput\<close> were given.\<close>

datatype GameEncodedInput =
    CoinTossInput COINTOSS_FACE
  | DiceInput real
  | RouletteInput "real list"

text \<open>The argument of \<^verbatim>\<open>getPlaceBetFunctionData\<close>.\<close>

record place_bet_inputs =
  i_betAmount :: int
  i_game :: CASINO_GAME_TYPE
  i_gameEncodedInput :: GameEncodedInput
  i_receiver :: string
  i_betCount :: real
  i_tokenAddress :: string
  i_stopGain :: int
  i_stopLoss :: int

text \<open>The argument of \<^verbatim>\<open>sendTransaction\<close>; the call data is kept as the inputs and
  the chain it encodes.\<close>

record transaction =
  tx_to :: string
  tx_data :: "place_bet_inputs \<times> chain_id"
  tx_value :: int

record CasinoBet =
  b_id :: int
  b_decodedInput :: string
  b_betTxnHash :: string
  b_formattedBetAmount :: string
  b_token_symbol :: string
  b_isWin :: "bool option"
  b_formattedPayoutMultiplier :: "real option"
  b_decodedRolled :: "string list option"
  b_formattedPayout :: "string option"
  b_rollTxnHash :: "string option"
  b_game :: CASINO_GAME_TYPE
  isResolved :: bool

record subgraph_error =
  err_code :: string
  err_message :: string

text \<open>What \<^verbatim>\<open>fetchBetByHash\<close> and \<^verbatim>\<open>fetchBets\<close> resolve to.\<close>

record bet_reply =
  reply_bet :: "CasinoBet option"
  reply_error :: "subgraph_error option"

record bets_reply =
  reply_bets :: "CasinoBet list"
  reply_bets_error :: "subgraph_error option"

text \<open>The response of the fee API: \<^verbatim>\<open>response.ok\<close>, \<^verbatim>\<open>response.statusText\<close> and
  what \<^verbatim>\<open>BigInt(await response.json())\<close> gives.\<close>

record vrf_response =
  ok :: bool
  statusText :: string
  json_BigInt :: "thrown + int"

text \<open>
  Functions of \<^verbatim>\<open>@betswirl/sdk-core\<close>, of \<^verbatim>\<open>viem\<close> (\<^verbatim>\<open>parseUnits\<close>) and of
  the language (\<^verbatim>\<open>Number.prototype.toString\<close>) that the repository calls and does not
  contain. \<^verbatim>\<open>getPlaceBetFunctionData\<close> is given by three of them: what it throws, if it
  throws (it encodes its argument, and refuses for instance a number that is not an
  integer); the address \<^verbatim>\<open>data.to\<close>; and \<^verbatim>\<open>extraData.getValue\<close>. Its call data
  is kept symbolic.
\<close>

record sdk =
  casinoChainById :: "chain_id \<Rightarrow> casino_chain option"
  chainNativeCurrencyToToken :: "native_currency \<Rightarrow> Token"
  rawTokenToToken :: "RawCasinoToken \<Rightarrow> chain_id \<Rightarrow> Token"
  parseRawBetRequirements ::
    "RawBetRequirements \<Rightarrow> Token \<Rightarrow> real \<Rightarrow> CASINO_GAME_TYPE \<Rightarrow> chain_id \<Rightarrow> BetRequirements"
  getPlaceBetFunctionData_throws :: "place_bet_inputs \<Rightarrow> chain_id \<Rightarrow> thrown option"
  placeBet_to :: "place_bet_inputs \<Rightarrow> chain_id \<Rightarrow> string"
  getValue :: "place_bet_inputs \<Rightarrow> chain_id \<Rightarrow> int \<Rightarrow> int"
  getMultiplier :: "GameEncodedInput \<Rightarrow> real"
  formatTxnUrl :: "string \<Rightarrow> chain_id \<Rightarrow> string"
  slugById :: "chain_id \<Rightarrow> string"
  game_toString :: "CASINO_GAME_TYPE \<Rightarrow> string"
  parseUnits :: "string \<Rightarrow> nat \<Rightarrow> thrown + int"
  Number_toString :: "real \<Rightarrow> string"

subsection \<open>The wallet provider, the fee API, the indexer and the clock\<close>

text \<open>
  \<^verbatim>\<open>readContract\<close> is split by the contract function read, since the source casts
  each result to the type it expects. The indexer answers its \<open>n\<close>-th query after
  \<open>fetch_ms n\<close> milliseconds; the timer before that query fires \<open>timer_lag n\<close>
  milliseconds late. A duration below zero counts as zero.
\<close>

record world =
  chainId :: "string option"
  getAddress :: string
  readContract_paused :: "CASINO_GAME_TYPE \<Rightarrow> chain_id \<Rightarrow> thrown + bool"
  readContract_betRequirements :: "string \<Rightarrow> real \<Rightarrow> chain_id \<Rightarrow> thrown + RawBetRequirements"
  readContract_casinoTokens :: "chain_id \<Rightarrow> thrown + RawCasinoToken list"
  sendTransaction :: "transaction \<Rightarrow> thrown + string"
  fetch_vrfFees :: "CASINO_GAME_TYPE \<Rightarrow> string \<Rightarrow> real \<Rightarrow> chain_id \<Rightarrow> thrown + vrf_response"
  fetchBetByHash :: "nat \<Rightarrow> string \<Rightarrow> chain_id \<Rightarrow> string option \<Rightarrow> bool \<Rightarrow> thrown + bet_reply"
  fetchBets ::
    "chain_id \<Rightarrow> string option \<Rightarrow> string option \<Rightarrow> CASINO_GAME_TYPE option \<Rightarrow> thrown + bets_reply"
  fetch_ms :: "nat \<Rightarrow> int"
  timer_lag :: "nat \<Rightarrow> int"

datatype read_call =
    GamePaused CASINO_GAME_TYPE chain_id
  | GetBetRequirements string real chain_id
  | GetCasinoTokens chain_id

datatype event =
    ReadContract read_call
  | HttpVrfFees CASINO_GAME_TYPE string real chain_id
  | IndexerBetByHash string chain_id bool
  | IndexerBets chain_id "string option" "CASINO_GAME_TYPE option"
  | SendTransaction transaction
  | SetTimeout int

text \<open>What has happened so far: the effects in order, the clock in milliseconds
  (\<^verbatim>\<open>Date.now()\<close>) and the number of queries \<^verbatim>\<open>fetchBetByHash\<close> has made.\<close>

record state =
  trace :: "event list"
  now :: int
  queries :: nat

definition emit :: "event \<Rightarrow> state \<Rightarrow> state" where
  "emit e s = s\<lparr>trace := trace s @ [e]\<rparr>"

text \<open>\<^verbatim>\<open>await new Promise(resolve => setTimeout(resolve, ms))\<close>\<close>

definition setTimeout :: "world \<Rightarrow> int \<Rightarrow> state \<Rightarrow> state" where
  "setTimeout w ms s =
     (emit (SetTimeout ms) s)\<lparr>now := now s + ms + max 0 (timer_lag w (queries s))\<rparr>"

text \<open>\<^verbatim>\<open>await fetchBetByHash(txHash, {chainId, theGraphKey, formatType})\<close>\<close>

definition await_fetchBetByHash ::
  "world \<Rightarrow> string \<Rightarrow> chain_id \<Rightarrow> string option \<Rightarrow> bool \<Rightarrow> state \<Rightarrow> (thrown + bet_reply) \<times> state" where
  "await_fetchBetByHash w txHash c key precise s =
     (fetchBetByHash w (queries s) txHash c key precise,
      (emit (IndexerBetByHash txHash c precise) s)
        \<lparr>now := now s + max 0 (fetch_ms w (queries s)), queries := Suc (queries s)\<rparr>)"

section \<open>The operations of \<^verbatim>\<open>utils/betswirl.ts\<close>\<close>

text \<open>\<^verbatim>\<open>!chainId\<close> holds for \<^verbatim>\<open>undefined\<close> and for the empty string.\<close>

definition getChainId :: "world \<Rightarrow> thrown + chain_id" where
  "getChainId w = (case chainId w of
       None \<Rightarrow> Inl (Error ''No chain ID'')
     | Some c \<Rightarrow> if c = [] then Inl (Error ''No chain ID'') else Inr c)"

definition checkLiveGame :: "world \<Rightarrow> CASINO_GAME_TYPE \<Rightarrow> state \<Rightarrow> (thrown + bool) \<times> state" where
  "checkLiveGame w g s = (case getChainId w of
       Inl e \<Rightarrow> (Inl e, s)
     | Inr c \<Rightarrow> (readContract_paused w g c, emit (ReadContract (GamePaused g c)) s))"

definition getCasinoTokens :: "sdk \<Rightarrow> world \<Rightarrow> state \<Rightarrow> (thrown + Token list) \<times> state" where
  "getCasinoTokens k w s = (case getChainId w of
       Inl e \<Rightarrow> (Inl e, s)
     | Inr c \<Rightarrow>
        (case readContract_casinoTokens w c of
           Inl e \<Rightarrow> Inl e
         | Inr rawCasinoTokens \<Rightarrow>
             Inr (map (\<lambda>rawToken. (rawTokenToToken k rawToken c)\<lparr>decimals := raw_decimals rawToken\<rparr>)
                    (filter (\<lambda>rawToken. raw_allowed rawToken \<and> \<not> raw_paused rawToken)
                       rawCasinoTokens)),
         emit (ReadContract (GetCasinoTokens c)) s))"

text \<open>
  \<^verbatim>\<open>tokenSymbolInput && tokenSymbolInput !== nativeSymbol\<close>: an absent and an empty
  symbol are both falsy. A chain that the SDK's table lacks makes
  \<^verbatim>\<open>casinoChain.viemChain\<close> a TypeError.
\<close>

definition getBetToken :: "sdk \<Rightarrow> world \<Rightarrow> string option \<Rightarrow> state \<Rightarrow> (thrown + Token) \<times> state" where
  "getBetToken k w tokenSymbolInput s = (case getChainId w of
       Inl e \<Rightarrow> (Inl e, s)
     | Inr c \<Rightarrow>
       (case casinoChainById k c of
          None \<Rightarrow>
            (Inl (Thrown ''TypeError'' ''Cannot read properties of undefined (reading 'viemChain')''), s)
        | Some casinoChain \<Rightarrow>
            (case tokenSymbolInput of
               None \<Rightarrow> (Inr (chainNativeCurrencyToToken k (nativeCurrency casinoChain)), s)
             | Some tokenSymbol \<Rightarrow>
                 if tokenSymbol \<noteq> [] \<and> tokenSymbol \<noteq> currency_symbol (nativeCurrency casinoChain) then
                   (case getCasinoTokens k w s of
                      (Inl e, s1) \<Rightarrow> (Inl e, s1)
                    | (Inr casinoTokens, s1) \<Rightarrow>
                        (case find (\<lambda>casinoToken. symbol casinoToken = tokenSymbol) casinoTokens of
                           None \<Rightarrow>
                             (Inl (Error (''The token must be one of ''
                                           @ join '', '' (map symbol casinoTokens))), s1)
                         | Some selectedToken \<Rightarrow> (Inr selectedToken, s1)))
                 else (Inr (chainNativeCurrencyToToken k (nativeCurrency casinoChain)), s))))"

definition getBetAmountInWei :: "sdk \<Rightarrow> string \<Rightarrow> Token \<Rightarrow> thrown + int" where
  "getBetAmountInWei k amount tok = (case parseUnits k amount (decimals tok) of
       Inl e \<Rightarrow> Inl e
     | Inr betAmountInWei \<Rightarrow>
         if betAmountInWei \<le> 0 then Inl (Error ''The bet amount must be greater than 0'')
         else Inr betAmountInWei)"

definition getBetRequirements ::
  "sdk \<Rightarrow> world \<Rightarrow> CASINO_GAME_TYPE \<Rightarrow> Token \<Rightarrow> real \<Rightarrow> state \<Rightarrow> (thrown + BetRequirements) \<times> state" where
  "getBetRequirements k w g betToken multiplier s = (case getChainId w of
       Inl e \<Rightarrow> (Inl e, s)
     | Inr c \<Rightarrow>
        (catch_rethrow ''An error occured while getting the bet requirements: ''
           (case readContract_betRequirements w (address betToken) multiplier c of
              Inl e \<Rightarrow> Inl e
            | Inr rawBetRequirements \<Rightarrow>
                Inr (parseRawBetRequirements k rawBetRequirements betToken multiplier g c)),
         emit (ReadContract (GetBetRequirements (address betToken) multiplier c)) s))"

definition getChainlinkVrfCost ::
  "world \<Rightarrow> CASINO_GAME_TYPE \<Rightarrow> string \<Rightarrow> real \<Rightarrow> state \<Rightarrow> (thrown + int) \<times> state" where
  "getChainlinkVrfCost w g betToken count s = (case getChainId w of
       Inl e \<Rightarrow> (Inl e, s)
     | Inr c \<Rightarrow>
        (catch_rethrow ''An error occured while getting the chainlink vrf cost: ''
           (case fetch_vrfFees w g betToken count c of
              Inl e \<Rightarrow> Inl e
            | Inr response \<Rightarrow>
                if \<not> ok response then
                  Inl (Error (''An error occured while fetching the chainlink vrf cost from API: ''
                              @ statusText response))
                else json_BigInt response),
         emit (HttpVrfFees g betToken count c) s))"

record casinoGameParams =
  p_betAmount :: int
  p_betToken :: Token
  p_betCount :: real
  p_receiver :: string
  p_stopGain :: int
  p_stopLoss :: int

text \<open>The object \<^verbatim>\<open>placeBet\<close> hands to \<^verbatim>\<open>getPlaceBetFunctionData\<close>.\<close>

definition placeBet_inputs ::
  "CASINO_GAME_TYPE \<Rightarrow> GameEncodedInput \<Rightarrow> casinoGameParams \<Rightarrow> place_bet_inputs" where
  "placeBet_inputs g gameEncodedInput p =
     \<lparr>i_betAmount = p_betAmount p, i_game = g, i_gameEncodedInput = gameEncodedInput,
      i_receiver = p_receiver p, i_betCount = p_betCount p,
      i_tokenAddress = address (p_betToken p),
      i_stopGain = p_stopGain p, i_stopLoss = p_stopLoss p\<rparr>"

definition placeBet ::
  "sdk \<Rightarrow> world \<Rightarrow> CASINO_GAME_TYPE \<Rightarrow> GameEncodedInput \<Rightarrow> real \<Rightarrow> casinoGameParams \<Rightarrow> state
     \<Rightarrow> (thrown + string) \<times> state" where
  "placeBet k w g gameEncodedInput gameMultiplier p s = (case getChainId w of
       Inl e \<Rightarrow> (Inl e, s)
     | Inr c \<Rightarrow>
       (case getBetRequirements k w g (p_betToken p) gameMultiplier s of
          (Inl e, s1) \<Rightarrow> (Inl e, s1)
        | (Inr betRequirements, s1) \<Rightarrow>
            if \<not> isAllowed betRequirements then
              (Inl (Error ''The token isn't allowed for betting''), s1)
            else if p_betAmount p > maxBetAmount betRequirements then
              (Inl (Error (''Bet amount should be less than ''
                           @ bigint_toString (maxBetAmount betRequirements))), s1)
            else if p_betCount p > maxBetCount betRequirements then
              (Inl (Error (''Bet count should be less than ''
                           @ Number_toString k (maxBetCount betRequirements))), s1)
            else
              (let functionData = placeBet_inputs g gameEncodedInput p in
               case getPlaceBetFunctionData_throws k functionData c of
                 Some e \<Rightarrow> (Inl e, s1)
               | None \<Rightarrow>
              (case getChainlinkVrfCost w g (address (p_betToken p)) (p_betCount p) s1 of
                 (Inl e, s2) \<Rightarrow>
                   (Inl (Error (''An error occured while placing the bet: '' @ toString e)), s2)
               | (Inr fee, s2) \<Rightarrow>
                   (let vrfCost = bigint_div (fee * 120) 100;
                        tx = \<lparr>tx_to = placeBet_to k functionData c,
                              tx_data = (functionData, c),
                              tx_value = getValue k functionData c vrfCost\<rparr>
                    in (catch_rethrow ''An error occured while placing the bet: ''
                          (sendTransaction w tx),
                        emit (SendTransaction tx) s2))))))"

subsection \<open>Reading a bet back from the indexer\<close>

record BetDetails =
  d_id :: string
  d_input :: string
  d_betTxnHash :: string
  d_betTxnLink :: string
  d_betAmount :: string
  d_token :: string
  d_isWin :: "bool option"
  d_payoutMultiplier :: "real option"
  d_rolled :: "string list option"
  d_payout :: "string option"
  d_rollTxnHash :: "string option"
  d_rollTxnLink :: "string option"
  d_linkOnBetSwirl :: string

text \<open>The object literal that \<^verbatim>\<open>getBet\<close> returns and \<^verbatim>\<open>getSubgraphBets\<close> maps
  over the bets; the source writes it out twice.\<close>

definition betDetails :: "sdk \<Rightarrow> chain_id \<Rightarrow> CasinoBet \<Rightarrow> BetDetails" where
  "betDetails k c bet =
     \<lparr>d_id = bigint_toString (b_id bet),
      d_input = b_decodedInput bet,
      d_betTxnHash = b_betTxnHash bet,
      d_betTxnLink = formatTxnUrl k (b_betTxnHash bet) c,
      d_betAmount = b_formattedBetAmount bet,
      d_token = b_token_symbol bet,
      d_isWin = b_isWin bet,
      d_payoutMultiplier = b_formattedPayoutMultiplier bet,
      d_rolled = b_decodedRolled bet,
      d_payout = b_formattedPayout bet,
      d_rollTxnHash = b_rollTxnHash bet,
      d_rollTxnLink = (case b_rollTxnHash bet of
           None \<Rightarrow> None
         | Some h \<Rightarrow> if h = [] then None else Some (formatTxnUrl k h c)),
      d_linkOnBetSwirl = ''https://www.betswirl.com/'' @ slugById k c @ ''/casino/''
           @ game_toString k (b_game bet) @ ''/'' @ bigint_toString (b_id bet)\<rparr>"

text \<open>The loop condition
  \<^verbatim>\<open>(!betData.bet || !betData.bet.isResolved) && !betData.error\<close>.\<close>

definition pending :: "bet_reply \<Rightarrow> bool" where
  "pending betData =
     ((case reply_bet betData of None \<Rightarrow> True | Some bet \<Rightarrow> \<not> isResolved bet)
      \<and> reply_error betData = None)"

text \<open>
  The \<^verbatim>\<open>while\<close> loop of \<^verbatim>\<open>getBet\<close>, entered with the latest answer of the
  indexer. It ends with the answer that made it stop, or with what was thrown inside it.
\<close>

function poll ::
  "world \<Rightarrow> string \<Rightarrow> chain_id \<Rightarrow> string option \<Rightarrow> int \<Rightarrow> bet_reply \<Rightarrow> state
     \<Rightarrow> (thrown + bet_reply) \<times> state" where
  "poll w txHash c key startTime betData s =
     (if pending betData then
        if now s - startTime \<ge> 60000 then
          (Inl (Error ''Timeout: Bet data retrieval exceeded 1 minute.''), s)
        else
          (case await_fetchBetByHash w txHash c key False (setTimeout w 1000 s) of
             (Inl e, s1) \<Rightarrow> (Inl e, s1)
           | (Inr betData1, s1) \<Rightarrow>
               if reply_error betData1 \<noteq> None then (Inr betData1, s1)
               else poll w txHash c key startTime betData1 s1)
      else (Inr betData, s))"
  by pat_completeness auto
termination
  apply (relation "measure (\<lambda>(w, txHash, c, key, startTime, betData, s). nat (startTime + 60000 - now s))")
   apply (auto simp: await_fetchBetByHash_def setTimeout_def emit_def)
  done

declare poll.simps [simp del]

definition getBet ::
  "sdk \<Rightarrow> world \<Rightarrow> string \<Rightarrow> string option \<Rightarrow> state \<Rightarrow> (thrown + BetDetails) \<times> state" where
  "getBet k w txHash theGraphKey s = (case getChainId w of
       Inl e \<Rightarrow> (Inl e, s)
     | Inr c \<Rightarrow>
       (case await_fetchBetByHash w txHash c theGraphKey True s of
          (Inl e, s1) \<Rightarrow>
            (Inl (Error (''An error occured while getting the bet: '' @ toString e)), s1)
        | (Inr betData0, s1) \<Rightarrow>
            (let startTime = now s1 in
             case poll w txHash c theGraphKey startTime betData0 s1 of
               (r, s2) \<Rightarrow>
                 (catch_rethrow ''An error occured while getting the bet: ''
                    (case r of
                       Inl e \<Rightarrow> Inl e
                     | Inr betData \<Rightarrow>
                         (case reply_error betData of
                            Some err \<Rightarrow>
                              Inl (Error (''['' @ err_code err @ ''] Error fetching bet: ''
                                          @ err_message err))
                          | None \<Rightarrow>
                              (case reply_bet betData of
                                 None \<Rightarrow>
                                   Inl (Error (''The bet hasn't been indexed in time, please retry later: ''
                                               @ txHash))
                               | Some bet \<Rightarrow> Inr (betDetails k c bet)))),
                  s2))))"

definition getSubgraphBets ::
  "sdk \<Rightarrow> world \<Rightarrow> string option \<Rightarrow> CASINO_GAME_TYPE option \<Rightarrow> string option \<Rightarrow> state
     \<Rightarrow> (thrown + BetDetails list) \<times> state" where
  "getSubgraphBets k w bettorFilter gameFilter theGraphKey s = (case getChainId w of
       Inl e \<Rightarrow> (Inl e, s)
     | Inr c \<Rightarrow>
        (catch_rethrow ''An error occured while getting the bet: ''
           (case fetchBets w c theGraphKey bettorFilter gameFilter of
              Inl e \<Rightarrow> Inl e
            | Inr bets \<Rightarrow>
                (case reply_bets_error bets of
                   Some err \<Rightarrow>
                     Inl (Error (''['' @ err_code err @ ''] Error fetching bets: ''
                                 @ err_message err))
                 | None \<Rightarrow> Inr (map (betDetails k c) (reply_bets bets)))),
         emit (IndexerBets c bettorFilter gameFilter) s))"

section \<open>The actions of \<^verbatim>\<open>betSwirlActionProvider.ts\<close>\<close>

text \<open>
  The three bet actions have one body and differ in the game and in how the selection is
  encoded. Of the validated arguments the body reads the token and the amount only.
\<close>

definition betAction ::
  "sdk \<Rightarrow> world \<Rightarrow> string option \<Rightarrow> CASINO_GAME_TYPE \<Rightarrow> GameEncodedInput
     \<Rightarrow> 'a casino_bet_args_scheme \<Rightarrow> state \<Rightarrow> (thrown + BetDetails) \<times> state" where
  "betAction k w theGraphKey g gameEncodedInput args s =
     (case checkLiveGame w g s of
        (Inl e, s1) \<Rightarrow> (Inl e, s1)
      | (Inr paused, s1) \<Rightarrow>
     (case getBetToken k w (token args) s1 of
        (Inl e, s2) \<Rightarrow> (Inl e, s2)
      | (Inr selectedToken, s2) \<Rightarrow>
     (case getBetAmountInWei k (betAmount args) selectedToken of
        Inl e \<Rightarrow> (Inl e, s2)
      | Inr betAmountInWei \<Rightarrow>
     (case placeBet k w g gameEncodedInput (getMultiplier k gameEncodedInput)
             \<lparr>p_betAmount = betAmountInWei, p_betToken = selectedToken, p_betCount = 1,
              p_receiver = getAddress w, p_stopGain = 0, p_stopLoss = 0\<rparr> s2 of
        (Inl e, s3) \<Rightarrow> (Inl e, s3)
      | (Inr txHash, s3) \<Rightarrow> getBet k w txHash theGraphKey s3))))"

definition coinToss ::
  "sdk \<Rightarrow> world \<Rightarrow> string option \<Rightarrow> coin_toss_args \<Rightarrow> state \<Rightarrow> (thrown + BetDetails) \<times> state" where
  "coinToss k w theGraphKey args = betAction k w theGraphKey COINTOSS (CoinTossInput (face args)) args"

definition dice ::
  "sdk \<Rightarrow> world \<Rightarrow> string option \<Rightarrow> dice_args \<Rightarrow> state \<Rightarrow> (thrown + BetDetails) \<times> state" where
  "dice k w theGraphKey args = betAction k w theGraphKey DICE (DiceInput (number args)) args"

definition roulette ::
  "sdk \<Rightarrow> world \<Rightarrow> string option \<Rightarrow> roulette_args \<Rightarrow> state \<Rightarrow> (thrown + BetDetails) \<times> state" where
  "roulette k w theGraphKey args =
     betAction k w theGraphKey ROULETTE (RouletteInput (numbers args)) args"

definition getBet_action ::
  "sdk \<Rightarrow> world \<Rightarrow> string option \<Rightarrow> get_bet_args \<Rightarrow> state \<Rightarrow> (thrown + BetDetails) \<times> state" where
  "getBet_action k w theGraphKey args = getBet k w (hash args) theGraphKey"

definition getBets ::
  "sdk \<Rightarrow> world \<Rightarrow> string option \<Rightarrow> get_bets_args \<Rightarrow> state \<Rightarrow> (thrown + BetDetails list) \<times> state" where
  "getBets k w theGraphKey args = getSubgraphBets k w (bettor args) (game args) theGraphKey"

section \<open>Observing a run\<close>

text \<open>The transactions that a run has handed to \<^verbatim>\<open>sendTransaction\<close>, in order.\<close>

fun submitted :: "event list \<Rightarrow> transaction list" where
  "submitted [] = []"
| "submitted (SendTransaction tx # es) = tx # submitted es"
| "submitted (e # es) = submitted es"

text \<open>The network calls of a run: every effect but the timer.\<close>

fun network_calls :: "event list \<Rightarrow> event list" where
  "network_calls [] = []"
| "network_calls (SetTimeout ms # es) = network_calls es"
| "network_calls (e # es) = e # network_calls es"

text \<open>
  The answers of the indexer in a run of \<^verbatim>\<open>getBet\<close> that starts in state \<open>s\<close>:
  \<open>attempt \<dots> 0\<close> is the first fetch, \<open>attempt \<dots> (Suc n)\<close> is the fetch that follows
  one more wait of a second. Each comes with the state, and so the clock, at the moment
  the answer is there.
\<close>

fun attempt :: "world \<Rightarrow> string \<Rightarrow> chain_id \<Rightarrow> string option \<Rightarrow> state \<Rightarrow> nat
    \<Rightarrow> (thrown + bet_reply) \<times> state" where
  "attempt w txHash c key s 0 = await_fetchBetByHash w txHash c key True s"
| "attempt w txHash c key s (Suc n) =
     await_fetchBetByHash w txHash c key False (setTimeout w 1000 (snd (attempt w txHash c key s n)))"

section \<open>Concrete environments\<close>

text \<open>A value of the SDK's constants: a dice of a hundred faces, of which 1 to 99 can be
  selected, and a roulette with the pockets 0 to 36.\<close>

definition bounds_example :: sdk_constants where
  "bounds_example =
     \<lparr>MIN_SELECTABLE_DICE_NUMBER = 1, MAX_SELECTABLE_DICE_NUMBER = 99,
      MIN_SELECTABLE_ROULETTE_NUMBER = 0, MAX_SELECTABLE_ROULETTE_NUMBER = 36,
      maxGameBetCountByType = (\<lambda>g. 100),
      CASINO_GAME_TYPE_of = (\<lambda>s. if s = ''coin-toss'' then Some COINTOSS
                                  else if s = ''dice'' then Some DICE
                                  else if s = ''roulette'' then Some ROULETTE
                                  else if s = ''keno'' then Some KENO else None)\<rparr>"

text \<open>
  An instance of the external functions, made for the examples and simpler than the SDK.
  The chain 8453 has the native currency ETH. A raw token keeps its address and its
  symbol, except that the record at the zero address, which stands for the native
  currency, gets the symbol ETH. Encoding a bet refuses a dice number that is not an
  integer. The transaction value is the bet amount plus the VRF cost. \<open>parseUnits\<close>
  is the fragment of viem's function on the three amounts the examples use.
\<close>

definition sdk_example :: sdk where
  "sdk_example =
     \<lparr>casinoChainById = (\<lambda>c. if c = ''8453''
          then Some \<lparr>nativeCurrency =
                 \<lparr>currency_name = ''Ether'', currency_symbol = ''ETH'', currency_decimals = 18\<rparr>\<rparr>
          else None),
      chainNativeCurrencyToToken = (\<lambda>n.
          \<lparr>symbol = currency_symbol n, address = ''0x0000000000000000000000000000000000000000'',
           decimals = currency_decimals n\<rparr>),
      rawTokenToToken = (\<lambda>r c.
          \<lparr>symbol = (if raw_tokenAddress r = ''0x0000000000000000000000000000000000000000''
                     then ''ETH'' else raw_symbol r),
           address = raw_tokenAddress r, decimals = raw_decimals r\<rparr>),
      parseRawBetRequirements = (\<lambda>raw t m g c.
          \<lparr>isAllowed = fst raw, maxBetAmount = fst (snd raw),
           maxBetCount = real_of_int (snd (snd raw))\<rparr>),
      getPlaceBetFunctionData_throws = (\<lambda>i c. case i_gameEncodedInput i of
            DiceInput x \<Rightarrow>
              if of_int \<lfloor>x\<rfloor> = x then None
              else Some (Thrown ''RangeError'' ''The number cannot be converted to a BigInt'')
          | _ \<Rightarrow> None),
      placeBet_to = (\<lambda>i c. ''0xC0123456789abcdef0123456789abcdef0123456''),
      getValue = (\<lambda>i c vrfCost. i_betAmount i + vrfCost),
      getMultiplier = (\<lambda>i. 19400),
      formatTxnUrl = (\<lambda>h c. ''https://basescan.org/tx/'' @ h),
      slugById = (\<lambda>c. ''base''),
      game_toString = (\<lambda>g. case g of COINTOSS \<Rightarrow> ''coin-toss'' | DICE \<Rightarrow> ''dice''
                                | ROULETTE \<Rightarrow> ''roulette'' | KENO \<Rightarrow> ''keno''),
      parseUnits = (\<lambda>a d. if a = ''1.0'' then Inr (10 ^ d)
                           else if a = ''0'' then Inr 0
                           else if a = ''-1.0'' then Inr (- (10 ^ d))
                           else Inl (Thrown ''InvalidDecimalNumberError'' a)),
      Number_toString = (\<lambda>x. bigint_toString \<lfloor>x\<rfloor>)\<rparr>"

definition bet_example :: CasinoBet where
  "bet_example =
     \<lparr>b_id = 42, b_decodedInput = ''HEADS'',
      b_betTxnHash = ''0x34a67177f658a0d45de95c6f34c3b9a868bee1ebf1f612a635ddf5e6c262376e'',
      b_formattedBetAmount = ''1.0'', b_token_symbol = ''ETH'', b_isWin = Some True,
      b_formattedPayoutMultiplier = Some 1.94, b_decodedRolled = Some [''HEADS''],
      b_formattedPayout = Some ''1.94'', b_rollTxnHash = None, b_game = COINTOSS,
      isResolved = True\<rparr>"

text \<open>
  A world on chain 8453: the bank lists USDC (allowed), DEGEN (paused) and a second,
  disallowed USDC; betting is allowed up to \<open>10\<^sup>2\<^sup>1\<close> wei and 100 bets; the fee API
  answers 1000; the indexer answers an unresolved bet twice and the resolved one from its
  third answer on, each answer taking 200 ms.
\<close>

definition world_example :: world where
  "world_example =
     \<lparr>chainId = Some ''8453'',
      getAddress = ''0x057BcBF736DADD774A8A45A185c1697F4cF7517D'',
      readContract_paused = (\<lambda>g c. Inr False),
      readContract_betRequirements = (\<lambda>a m c. Inr (True, 10 ^ 21, 100)),
      readContract_casinoTokens = (\<lambda>c. Inr
         [\<lparr>raw_symbol = ''USDC'', raw_tokenAddress = ''0xA'', raw_decimals = 6,
           raw_allowed = True, raw_paused = False\<rparr>,
          \<lparr>raw_symbol = ''DEGEN'', raw_tokenAddress = ''0xB'', raw_decimals = 18,
           raw_allowed = True, raw_paused = True\<rparr>,
          \<lparr>raw_symbol = ''USDC'', raw_tokenAddress = ''0xC'', raw_decimals = 6,
           raw_allowed = False, raw_paused = False\<rparr>]),
      sendTransaction = (\<lambda>tx.
         Inr ''0x34a67177f658a0d45de95c6f34c3b9a868bee1ebf1f612a635ddf5e6c262376e''),
      fetch_vrfFees = (\<lambda>g a n c.
         Inr \<lparr>ok = True, statusText = ''OK'', json_BigInt = Inr 1000\<rparr>),
      fetchBetByHash = (\<lambda>n h c key precise.
         Inr (if n < 2 then \<lparr>reply_bet = Some (bet_example\<lparr>isResolved := False\<rparr>), reply_error = None\<rparr>
              else \<lparr>reply_bet = Some bet_example, reply_error = None\<rparr>)),
      fetchBets = (\<lambda>c key b g. Inr \<lparr>reply_bets = [bet_example], reply_bets_error = None\<rparr>),
      fetch_ms = (\<lambda>n. 200),
      timer_lag = (\<lambda>n. 0)\<rparr>"

definition state0 :: state where
  "state0 = \<lparr>trace = [], now = 0, queries = 0\<rparr>"

definition coin_toss_example :: coin_toss_args where
  "coin_toss_example =
     \<lparr>betAmount = ''1.0'', token = Some ''ETH'', stopGain = Some ''5'', stopLoss = Some ''3'',
      receiver = Some ''0x1111111111111111111111111111111111111111'', betCount = Some 7,
      face = HEADS\<rparr>"

definition params_example :: casinoGameParams where
  "params_example =
     \<lparr>p_betAmount = 5,
      p_betToken = \<lparr>symbol = ''ETH'', address = ''0x0000000000000000000000000000000000000000'',
                    decimals = 18\<rparr>,
      p_betCount = 1, p_receiver = ''0x057BcBF736DADD774A8A45A185c1697F4cF7517D'',
      p_stopGain = 0, p_stopLoss = 0\<rparr>"

text \<open>The same world, with a bank that reports the token as not allowed.\<close>

definition world_disallowed :: world where
  "world_disallowed = world_example\<lparr>readContract_betRequirements := (\<lambda>a m c. Inr (False, 0, 0))\<rparr>"

text \<open>The same world, with another token list: the record of the native currency at the
  zero address, whose raw symbol is not the chain's symbol, then two allowed tokens that
  share the symbol USDC around a paused one.\<close>

definition world_listing :: world where
  "world_listing = world_example\<lparr>readContract_casinoTokens := (\<lambda>c. Inr
         [\<lparr>raw_symbol = ''NATIVE'',
           raw_tokenAddress = ''0x0000000000000000000000000000000000000000'',
           raw_decimals = 18, raw_allowed = True, raw_paused = False\<rparr>,
          \<lparr>raw_symbol = ''USDC'', raw_tokenAddress = ''0xA'', raw_decimals = 6,
           raw_allowed = True, raw_paused = False\<rparr>,
          \<lparr>raw_symbol = ''DEGEN'', raw_tokenAddress = ''0xB'', raw_decimals = 18,
           raw_allowed = True, raw_paused = True\<rparr>,
          \<lparr>raw_symbol = ''USDC'', raw_tokenAddress = ''0xD'', raw_decimals = 6,
           raw_allowed = True, raw_paused = False\<rparr>])\<rparr>"

text \<open>The same world, with a fee API that answers \<^verbatim>\<open>"-1"\<close>.\<close>

definition world_negative_fee :: world where
  "world_negative_fee = world_example\<lparr>fetch_vrfFees := (\<lambda>g a n c.
       Inr \<lparr>ok = True, statusText = ''OK'', json_BigInt = Inr (- 1)\<rparr>)\<rparr>"

text \<open>The same world, with an indexer that reports an error for the list query.\<close>

definition world_indexer_error :: world where
  "world_indexer_error = world_example\<lparr>fetchBets := (\<lambda>c key b g.
       Inr \<lparr>reply_bets = [],
            reply_bets_error = Some \<lparr>err_code = ''429'', err_message = ''rate limited''\<rparr>\<rparr>)\<rparr>"

text \<open>Three more worlds: an indexer whose second answer takes 70 seconds and reports the
  bet resolved; one that never resolves and takes 30 seconds for each answer; one whose
  second answer is an error.\<close>

definition hash_example :: string where
  "hash_example = ''0x34a67177f658a0d45de95c6f34c3b9a868bee1ebf1f612a635ddf5e6c262376e''"

definition unresolved_reply :: bet_reply where
  "unresolved_reply = \<lparr>reply_bet = Some (bet_example\<lparr>isResolved := False\<rparr>), reply_error = None\<rparr>"

definition resolved_reply :: bet_reply where
  "resolved_reply = \<lparr>reply_bet = Some bet_example, reply_error = None\<rparr>"

definition world_slow :: world where
  "world_slow = world_example
     \<lparr>fetchBetByHash := (\<lambda>n h c key precise. Inr (if n < 1 then unresolved_reply else resolved_reply)),
      fetch_ms := (\<lambda>n. if n = 1 then 70000 else 200)\<rparr>"

definition world_stalled :: world where
  "world_stalled = world_example
     \<lparr>fetchBetByHash := (\<lambda>n h c key precise. Inr unresolved_reply),
      fetch_ms := (\<lambda>n. 30000)\<rparr>"

definition world_bet_error :: world where
  "world_bet_error = world_example
     \<lparr>fetchBetByHash := (\<lambda>n h c key precise. Inr (if n < 1 then unresolved_reply
         else \<lparr>reply_bet = None,
               reply_error = Some \<lparr>err_code = ''404'', err_message = ''not found''\<rparr>\<rparr>))\<rparr>"



section \<open>Properties of the schemas\<close>

subsection \<open>The regular expressions\<close>

lemma hex_run_Some_iff:
  "hex_run n s = Some r \<longleftrightarrow> n \<le> length s \<and> (\<forall>c \<in> set (take n s). is_hex_digit c) \<and> r = drop n s"
  by (induction n s rule: hex_run.induct) auto

lemma match_0x_hex_iff:
  "match_0x_hex n s = Some r \<longleftrightarrow>
     (\<exists>h. s = ''0x'' @ h @ r \<and> length h = n \<and> (\<forall>c \<in> set h. is_hex_digit c))"
proof
  assume "match_0x_hex n s = Some r"
  then obtain t where s: "s = CHR ''0'' # CHR ''x'' # t" and t: "hex_run n t = Some r"
    by (auto simp: match_0x_hex_def split: list.splits if_splits)
  from t have "n \<le> length t" "\<forall>c \<in> set (take n t). is_hex_digit c" "r = drop n t"
    by (simp_all add: hex_run_Some_iff)
  then have "s = ''0x'' @ take n t @ r \<and> length (take n t) = n \<and> (\<forall>c \<in> set (take n t). is_hex_digit c)"
    using s by simp
  then show "\<exists>h. s = ''0x'' @ h @ r \<and> length h = n \<and> (\<forall>c \<in> set h. is_hex_digit c)"
    by blast
next
  assume "\<exists>h. s = ''0x'' @ h @ r \<and> length h = n \<and> (\<forall>c \<in> set h. is_hex_digit c)"
  then obtain h where "s = ''0x'' @ h @ r" "length h = n" "\<forall>c \<in> set h. is_hex_digit c"
    by blast
  then show "match_0x_hex n s = Some r"
    by (simp add: match_0x_hex_def hex_run_Some_iff)
qed

text \<open>The address pattern accepts the strings made of \<^verbatim>\<open>0x\<close> and forty hexadecimal
  digits, and no other.\<close>

lemma address_regex_iff:
  "address_regex s \<longleftrightarrow> (\<exists>h. s = ''0x'' @ h \<and> length h = 40 \<and> (\<forall>c \<in> set h. is_hex_digit c))"
  by (simp add: address_regex_def match_0x_hex_iff)

lemma hexAddress_iff:
  "hexAddress v \<noteq> None \<longleftrightarrow>
     (\<exists>h. v = JStr (''0x'' @ h) \<and> length h = 40 \<and> (\<forall>c \<in> set h. is_hex_digit c))"
  by (cases v) (auto simp: hexAddress_def z_refine_def z_string_def address_regex_iff)

text \<open>The hash pattern accepts every string that has \<^verbatim>\<open>0x\<close> and sixty-four
  hexadecimal digits somewhere inside.\<close>

lemma hash_regex_iff:
  "hash_regex s \<longleftrightarrow>
     (\<exists>p h r. s = p @ ''0x'' @ h @ r \<and> length h = 64 \<and> (\<forall>c \<in> set h. is_hex_digit c))"
proof (induction s)
  case Nil
  then show ?case by simp
next
  case (Cons c s)
  show ?case
  proof
    assume "hash_regex (c # s)"
    then consider r where "match_0x_hex 64 (c # s) = Some r" | "hash_regex s"
      by auto
    then show "\<exists>p h r. c # s = p @ ''0x'' @ h @ r \<and> length h = 64 \<and> (\<forall>c \<in> set h. is_hex_digit c)"
    proof cases
      case 1
      then obtain h where "c # s = [] @ ''0x'' @ h @ r" "length h = 64" "\<forall>c \<in> set h. is_hex_digit c"
        by (auto simp: match_0x_hex_iff)
      then show ?thesis by blast
    next
      case 2
      then obtain p h r where "s = p @ ''0x'' @ h @ r" "length h = 64" "\<forall>c \<in> set h. is_hex_digit c"
        using Cons.IH by blast
      then have "c # s = (c # p) @ ''0x'' @ h @ r \<and> length h = 64 \<and> (\<forall>c \<in> set h. is_hex_digit c)"
        by simp
      then show ?thesis by blast
    qed
  next
    assume "\<exists>p h r. c # s = p @ ''0x'' @ h @ r \<and> length h = 64 \<and> (\<forall>c \<in> set h. is_hex_digit c)"
    then obtain p h r where eq: "c # s = p @ ''0x'' @ h @ r"
      and h: "length h = 64" "\<forall>c \<in> set h. is_hex_digit c"
      by blast
    show "hash_regex (c # s)"
    proof (cases p)
      case Nil
      with eq h have "match_0x_hex 64 (c # s) = Some r"
        by (simp only: match_0x_hex_iff) auto
      then show ?thesis by simp
    next
      case (Cons d p')
      with eq have "s = p' @ ''0x'' @ h @ r" by simp
      with h have "hash_regex s" using Cons.IH by blast
      then show ?thesis by simp
    qed
  qed
qed

text \<open>
  C4. The address field accepts a string iff it is \<^verbatim>\<open>0x\<close> followed by exactly 40
  hexadecimal digits (\<open>hexAddress_iff\<close>). The hash field of the get-bet schema does not
  keep to exactly 64 digits: its pattern is not anchored, and the schema accepts the hash
  of the repository's test with two more digits appended, a string of 68 characters.
\<close>

theorem GetBetSchema_accepts_overlong_hash:
  "GetBetSchema (JObj [(''hash'',
       JStr ''0x34a67177f658a0d45de95c6f34c3b9a868bee1ebf1f612a635ddf5e6c262376eff'')])
     = Some \<lparr>hash = ''0x34a67177f658a0d45de95c6f34c3b9a868bee1ebf1f612a635ddf5e6c262376eff''\<rparr>"
  by code_simp

subsection \<open>Bounds of the game schemas\<close>













section \<open>Properties of the operations\<close>

lemma submitted_append [simp]: "submitted (es @ fs) = submitted es @ submitted fs"
  by (induction es rule: submitted.induct) simp_all

lemma trace_emit [simp]: "trace (emit e s) = trace s @ [e]"
  by (simp add: emit_def)

subsection \<open>The requirement gate of \<^verbatim>\<open>placeBet\<close>\<close>

lemma getBetRequirements_state:
  assumes "getBetRequirements k w g t m s = (Inr req, s1)"
  shows "\<exists>c. getChainId w = Inr c \<and> s1 = emit (ReadContract (GetBetRequirements (address t) m c)) s"
  using assms
  by (auto simp: getBetRequirements_def catch_rethrow_def split: sum.splits)

text \<open>
  C1. When the bet requirements have been read and report the token as not allowed, or a
  maximum amount below the bet amount, or a maximum count below the bet count,
  \<^verbatim>\<open>placeBet\<close> throws the error of the first check that fails, and the run has handed
  nothing to \<^verbatim>\<open>sendTransaction\<close>. Whenever a run of \<^verbatim>\<open>placeBet\<close> does submit a
  transaction, the requirements were read first and passed all three checks: the effects
  of the run are the requirements read, the fee request and the transaction, in that order.
\<close>

theorem placeBet_requirements_gate:
  "(getBetRequirements k w g (p_betToken p) m s = (Inr req, s1)
      \<and> (\<not> isAllowed req \<or> maxBetAmount req < p_betAmount p \<or> maxBetCount req < p_betCount p)
    \<longrightarrow> placeBet k w g inp m p s =
          (Inl (if \<not> isAllowed req then Error ''The token isn't allowed for betting''
                else if maxBetAmount req < p_betAmount p
                  then Error (''Bet amount should be less than '' @ bigint_toString (maxBetAmount req))
                else Error (''Bet count should be less than '' @ Number_toString k (maxBetCount req))),
           s1)
        \<and> submitted (trace s1) = submitted (trace s))
   \<and> (submitted (trace (snd (placeBet k w g inp m p s))) \<noteq> submitted (trace s)
    \<longrightarrow> (\<exists>req c tx.
           getBetRequirements k w g (p_betToken p) m s =
             (Inr req, emit (ReadContract (GetBetRequirements (address (p_betToken p)) m c)) s)
         \<and> isAllowed req \<and> p_betAmount p \<le> maxBetAmount req \<and> p_betCount p \<le> maxBetCount req
         \<and> trace (snd (placeBet k w g inp m p s)) =
             trace s @ [ReadContract (GetBetRequirements (address (p_betToken p)) m c),
                        HttpVrfFees g (address (p_betToken p)) (p_betCount p) c,
                        SendTransaction tx]))"
proof (intro conjI impI)
  assume a: "getBetRequirements k w g (p_betToken p) m s = (Inr req, s1)
      \<and> (\<not> isAllowed req \<or> maxBetAmount req < p_betAmount p \<or> maxBetCount req < p_betCount p)"
  then obtain c where c: "getChainId w = Inr c"
    and s1: "s1 = emit (ReadContract (GetBetRequirements (address (p_betToken p)) m c)) s"
    using getBetRequirements_state by blast
  from s1 show "submitted (trace s1) = submitted (trace s)"
    by simp
  from a c show "placeBet k w g inp m p s =
          (Inl (if \<not> isAllowed req then Error ''The token isn't allowed for betting''
                else if maxBetAmount req < p_betAmount p
                  then Error (''Bet amount should be less than '' @ bigint_toString (maxBetAmount req))
                else Error (''Bet count should be less than '' @ Number_toString k (maxBetCount req))),
           s1)"
    by (auto simp: placeBet_def)
next
  assume sent: "submitted (trace (snd (placeBet k w g inp m p s))) \<noteq> submitted (trace s)"
  let ?t = "p_betToken p"
  from sent obtain c where c: "getChainId w = Inr c"
    by (cases "getChainId w") (auto simp: placeBet_def)
  obtain r s1 where r: "getBetRequirements k w g ?t m s = (r, s1)"
    by (cases "getBetRequirements k w g ?t m s")
  from sent c r obtain req where req: "r = Inr req"
    by (cases r) (auto simp: placeBet_def getBetRequirements_def)
  from r req c have s1: "s1 = emit (ReadContract (GetBetRequirements (address ?t) m c)) s"
    using getBetRequirements_state [of k w g ?t m s req s1] by simp
  from sent c r req s1 have ok: "isAllowed req" "p_betAmount p \<le> maxBetAmount req"
      "p_betCount p \<le> maxBetCount req"
    by (auto simp: placeBet_def split: if_splits)
  obtain v s2 where v: "getChainlinkVrfCost w g (address ?t) (p_betCount p) s1 = (v, s2)"
    by (cases "getChainlinkVrfCost w g (address ?t) (p_betCount p) s1")
  from c have s2: "s2 = emit (HttpVrfFees g (address ?t) (p_betCount p) c) s1"
    using v by (auto simp: getChainlinkVrfCost_def)
  from sent c r req ok s1
  have enc: "getPlaceBetFunctionData_throws k (placeBet_inputs g inp p) c = None"
    by (cases "getPlaceBetFunctionData_throws k (placeBet_inputs g inp p) c")
      (auto simp: placeBet_def Let_def)
  from sent c r req ok enc v s1 s2 obtain fee where fee: "v = Inr fee"
    by (cases v) (auto simp: placeBet_def)
  from c r req ok enc v fee s1 s2
  have "\<exists>tx. trace (snd (placeBet k w g inp m p s)) =
             trace s @ [ReadContract (GetBetRequirements (address ?t) m c),
                        HttpVrfFees g (address ?t) (p_betCount p) c, SendTransaction tx]"
    by (simp add: placeBet_def Let_def)
  with r req s1 ok show "\<exists>req c tx.
           getBetRequirements k w g (p_betToken p) m s =
             (Inr req, emit (ReadContract (GetBetRequirements (address (p_betToken p)) m c)) s)
         \<and> isAllowed req \<and> p_betAmount p \<le> maxBetAmount req \<and> p_betCount p \<le> maxBetCount req
         \<and> trace (snd (placeBet k w g inp m p s)) =
             trace s @ [ReadContract (GetBetRequirements (address (p_betToken p)) m c),
                        HttpVrfFees g (address (p_betToken p)) (p_betCount p) c,
                        SendTransaction tx]"
    by blast
qed

theorem placeBet_requirements_gate_witness:
  "placeBet sdk_example world_disallowed COINTOSS (CoinTossInput HEADS) 19400 params_example state0
     = (Inl (Error ''The token isn't allowed for betting''),
        \<lparr>trace = [ReadContract (GetBetRequirements
                     ''0x0000000000000000000000000000000000000000'' 19400 ''8453'')],
         now = 0, queries = 0\<rparr>)
   \<and> isAllowed (projr (fst (getBetRequirements sdk_example world_example COINTOSS
          (p_betToken params_example) 19400 state0)))"
proof -
  let ?s1 = "\<lparr>trace = [ReadContract (GetBetRequirements
                         ''0x0000000000000000000000000000000000000000'' 19400 ''8453'')],
         now = 0, queries = 0\<rparr>"
  let ?req = "\<lparr>isAllowed = False, maxBetAmount = 0, maxBetCount = 0\<rparr>"
  have read: "getBetRequirements sdk_example world_disallowed COINTOSS (p_betToken params_example)
                19400 state0 = (Inr ?req, ?s1)"
    by (simp add: getBetRequirements_def getChainId_def world_disallowed_def world_example_def
        sdk_example_def params_example_def state0_def catch_rethrow_def emit_def)
  have sent: "submitted (trace (snd (placeBet sdk_example world_example COINTOSS (CoinTossInput HEADS)
                19400 params_example state0))) \<noteq> submitted (trace state0)"
    by (simp add: placeBet_def getBetRequirements_def getChainlinkVrfCost_def getChainId_def
        world_example_def sdk_example_def params_example_def state0_def catch_rethrow_def emit_def
        placeBet_inputs_def Let_def)
  from placeBet_requirements_gate [of sdk_example world_disallowed COINTOSS params_example 19400
      state0 ?req ?s1 "CoinTossInput HEADS"] read
  have "placeBet sdk_example world_disallowed COINTOSS (CoinTossInput HEADS) 19400 params_example state0
     = (Inl (Error ''The token isn't allowed for betting''), ?s1)"
    by simp
  moreover
  from placeBet_requirements_gate [of sdk_example world_example COINTOSS params_example 19400
      state0 _ _ "CoinTossInput HEADS"] sent
  have "isAllowed (projr (fst (getBetRequirements sdk_example world_example COINTOSS
          (p_betToken params_example) 19400 state0)))"
    by fastforce
  ultimately show ?thesis by blast
qed

subsection \<open>What a run submits\<close>

lemma checkLiveGame_trace:
  "trace (snd (checkLiveGame w g s)) = trace s
   \<or> (\<exists>c. getChainId w = Inr c \<and> trace (snd (checkLiveGame w g s)) = trace s @ [ReadContract (GamePaused g c)])"
  by (cases "getChainId w") (simp_all add: checkLiveGame_def)

lemma checkLiveGame_Inr:
  "checkLiveGame w g s = (Inr b, s1) \<Longrightarrow>
     \<exists>c. getChainId w = Inr c \<and> s1 = emit (ReadContract (GamePaused g c)) s"
  by (cases "getChainId w") (auto simp: checkLiveGame_def)

lemma getCasinoTokens_state:
  "snd (getCasinoTokens k w s) = s
   \<or> (\<exists>c. getChainId w = Inr c \<and> snd (getCasinoTokens k w s) = emit (ReadContract (GetCasinoTokens c)) s)"
  by (cases "getChainId w") (auto simp: getCasinoTokens_def)

lemma getBetToken_state:
  "snd (getBetToken k w tokenSymbolInput s) = s
   \<or> (\<exists>c. getChainId w = Inr c
         \<and> snd (getBetToken k w tokenSymbolInput s) = emit (ReadContract (GetCasinoTokens c)) s)"
  using getCasinoTokens_state [of k w s]
  by (auto simp: getBetToken_def split: sum.splits option.splits prod.splits)

lemma await_fetchBetByHash_submitted [simp]:
  "submitted (trace (snd (await_fetchBetByHash w h c key precise s))) = submitted (trace s)"
  by (simp add: await_fetchBetByHash_def)

lemma setTimeout_submitted [simp]:
  "submitted (trace (setTimeout w ms s)) = submitted (trace s)"
  by (simp add: setTimeout_def)

lemma poll_submitted:
  "submitted (trace (snd (poll w h c key t0 b s))) = submitted (trace s)"
proof (induction w h c key t0 b s rule: poll.induct)
  case (1 w txHash c key startTime betData s)
  obtain r s1 where f: "await_fetchBetByHash w txHash c key False (setTimeout w 1000 s) = (r, s1)"
    by (cases "await_fetchBetByHash w txHash c key False (setTimeout w 1000 s)")
  then have s1: "submitted (trace s1) = submitted (trace s)"
    using await_fetchBetByHash_submitted [of w txHash c key False "setTimeout w 1000 s"] by simp
  show ?case
  proof (cases "pending betData \<and> \<not> 60000 \<le> now s - startTime")
    case True
    show ?thesis
    proof (cases r)
      case (Inl e)
      with True f s1 show ?thesis by (subst poll.simps) simp
    next
      case (Inr betData1)
      show ?thesis
      proof (cases "reply_error betData1 \<noteq> None")
        case True
        with \<open>pending betData \<and> \<not> 60000 \<le> now s - startTime\<close> Inr f s1 show ?thesis
          by (subst poll.simps) auto
      next
        case False
        with \<open>pending betData \<and> \<not> 60000 \<le> now s - startTime\<close> Inr f
        have "submitted (trace (snd (poll w txHash c key startTime betData1 s1))) = submitted (trace s1)"
          using "1.IH" [of r s1 betData1] by simp
        with \<open>pending betData \<and> \<not> 60000 \<le> now s - startTime\<close> Inr f s1 False show ?thesis
          by (subst poll.simps) auto
      qed
    qed
  next
    case False
    then show ?thesis by (subst poll.simps) auto
  qed
qed

lemma getBet_submitted:
  "submitted (trace (snd (getBet k w h key s))) = submitted (trace s)"
proof (cases "getChainId w")
  case (Inl e)
  then show ?thesis by (simp add: getBet_def)
next
  case (Inr c)
  obtain r s1 where f: "await_fetchBetByHash w h c key True s = (r, s1)"
    by (cases "await_fetchBetByHash w h c key True s")
  then have s1: "submitted (trace s1) = submitted (trace s)"
    using await_fetchBetByHash_submitted [of w h c key True s] by simp
  show ?thesis
  proof (cases r)
    case (Inl e)
    with Inr f s1 show ?thesis by (simp add: getBet_def)
  next
    case (Inr b)
    obtain r2 s2 where p: "poll w h c key (now s1) b s1 = (r2, s2)"
      by (cases "poll w h c key (now s1) b s1")
    then have "submitted (trace s2) = submitted (trace s1)"
      using poll_submitted [of w h c key "now s1" b s1] by simp
    with \<open>getChainId w = Inr c\<close> Inr f s1 p show ?thesis by (simp add: getBet_def)
  qed
qed

lemma placeBet_submitted:
  "submitted (trace (snd (placeBet k w g inp m p s))) = submitted (trace s)
   \<or> (\<exists>c fee. getChainId w = Inr c \<and>
        submitted (trace (snd (placeBet k w g inp m p s))) = submitted (trace s) @
          [\<lparr>tx_to = placeBet_to k (placeBet_inputs g inp p) c,
            tx_data = (placeBet_inputs g inp p, c),
            tx_value = getValue k (placeBet_inputs g inp p) c (bigint_div (fee * 120) 100)\<rparr>])"
  by (auto simp: placeBet_def getBetRequirements_def getChainlinkVrfCost_def Let_def
      split: sum.splits prod.splits option.splits)

lemma checkLiveGame_submitted [simp]:
  "submitted (trace (snd (checkLiveGame w g s))) = submitted (trace s)"
  using checkLiveGame_trace [of w g s] by auto

lemma getBetToken_submitted [simp]:
  "submitted (trace (snd (getBetToken k w x s))) = submitted (trace s)"
  using getBetToken_state [of k w x s] by auto

lemma betAction_submitted:
  "submitted (trace (snd (betAction k w key g inp args s))) = submitted (trace s)
   \<or> (\<exists>c fee amt tok.
        submitted (trace (snd (betAction k w key g inp args s))) = submitted (trace s) @
          [\<lparr>tx_to = placeBet_to k (placeBet_inputs g inp
                \<lparr>p_betAmount = amt, p_betToken = tok, p_betCount = 1,
                 p_receiver = getAddress w, p_stopGain = 0, p_stopLoss = 0\<rparr>) c,
            tx_data = (placeBet_inputs g inp
                \<lparr>p_betAmount = amt, p_betToken = tok, p_betCount = 1,
                 p_receiver = getAddress w, p_stopGain = 0, p_stopLoss = 0\<rparr>, c),
            tx_value = getValue k (placeBet_inputs g inp
                \<lparr>p_betAmount = amt, p_betToken = tok, p_betCount = 1,
                 p_receiver = getAddress w, p_stopGain = 0, p_stopLoss = 0\<rparr>) c
                 (bigint_div (fee * 120) 100)\<rparr>])"
proof -
  obtain r1 s1 where 1: "checkLiveGame w g s = (r1, s1)"
    by (cases "checkLiveGame w g s")
  then have s1: "submitted (trace s1) = submitted (trace s)"
    using checkLiveGame_submitted [of w g s] by simp
  obtain r2 s2 where 2: "getBetToken k w (token args) s1 = (r2, s2)"
    by (cases "getBetToken k w (token args) s1")
  then have s2: "submitted (trace s2) = submitted (trace s)"
    using getBetToken_submitted [of k w "token args" s1] s1 by simp
  show ?thesis
  proof (cases r1)
    case Inl
    with 1 s1 show ?thesis by (simp add: betAction_def)
  next
    case (Inr paused)
    note r1 = this
    show ?thesis
    proof (cases r2)
      case Inl
      with 1 2 r1 s2 show ?thesis by (simp add: betAction_def)
    next
      case (Inr tok)
      note r2 = this
      show ?thesis
      proof (cases "getBetAmountInWei k (betAmount args) tok")
        case Inl
        with 1 2 r1 r2 s2 show ?thesis by (simp add: betAction_def)
      next
        case (Inr amt)
        let ?p = "\<lparr>p_betAmount = amt, p_betToken = tok, p_betCount = 1,
                 p_receiver = getAddress w, p_stopGain = 0, p_stopLoss = 0\<rparr>"
        obtain r3 s3 where 3: "placeBet k w g inp (getMultiplier k inp) ?p s2 = (r3, s3)"
          by (cases "placeBet k w g inp (getMultiplier k inp) ?p s2")
        have fin: "submitted (trace (snd (betAction k w key g inp args s))) = submitted (trace s3)"
          using 1 2 3 r1 r2 Inr getBet_submitted [of k w _ key s3]
          by (cases r3) (simp_all add: betAction_def)
        from placeBet_submitted [of k w g inp "getMultiplier k inp" ?p s2] 3 s2
        show ?thesis
          unfolding fin by auto
      qed
    qed
  qed
qed

lemma betAction_fixed_parameters:
  assumes "tx \<in> set (submitted (trace (snd (betAction k w key g inp args s))))"
      and "tx \<notin> set (submitted (trace s))"
  shows "i_betCount (fst (tx_data tx)) = 1
       \<and> i_receiver (fst (tx_data tx)) = getAddress w
       \<and> i_stopGain (fst (tx_data tx)) = 0
       \<and> i_stopLoss (fst (tx_data tx)) = 0"
  using betAction_submitted [of k w key g inp args s] assms
  by (auto simp: placeBet_inputs_def)

text \<open>
  C3. Whatever the validated arguments of a coin-toss, dice or roulette action hold, a
  transaction that the action submits encodes a bet count of 1, the wallet's own address
  as receiver, and a stop gain and a stop loss of 0.
\<close>

theorem bet_actions_submit_fixed_parameters:
  assumes "tx \<in> set (submitted (trace (snd (coinToss k w key ca s))))
         \<or> tx \<in> set (submitted (trace (snd (dice k w key da s))))
         \<or> tx \<in> set (submitted (trace (snd (roulette k w key ra s))))"
      and "tx \<notin> set (submitted (trace s))"
  shows "i_betCount (fst (tx_data tx)) = 1
       \<and> i_receiver (fst (tx_data tx)) = getAddress w
       \<and> i_stopGain (fst (tx_data tx)) = 0
       \<and> i_stopLoss (fst (tx_data tx)) = 0"
  using assms unfolding coinToss_def dice_def roulette_def
  by (blast dest: betAction_fixed_parameters)

text \<open>The witness: a request that the coin-toss schema accepts with a bet count of 7,
  another receiver and both stops set; the transaction submitted for it.\<close>

theorem bet_actions_submit_fixed_parameters_witness:
  "CoinTossSchema bounds_example
      (JObj [(''face'', JStr ''HEADS''), (''betAmount'', JStr ''1.0''), (''token'', JStr ''ETH''),
             (''stopGain'', JStr ''5''), (''stopLoss'', JStr ''3''),
             (''receiver'', JStr ''0x1111111111111111111111111111111111111111''),
             (''betCount'', JNum 7)]) = Some coin_toss_example
   \<and> submitted (trace (snd (coinToss sdk_example world_example None coin_toss_example state0))) \<noteq> []
   \<and> i_betCount (fst (tx_data (hd (submitted (trace (snd
         (coinToss sdk_example world_example None coin_toss_example state0))))))) = 1
   \<and> i_receiver (fst (tx_data (hd (submitted (trace (snd
         (coinToss sdk_example world_example None coin_toss_example state0)))))))
       = ''0x057BcBF736DADD774A8A45A185c1697F4cF7517D''
   \<and> i_stopGain (fst (tx_data (hd (submitted (trace (snd
         (coinToss sdk_example world_example None coin_toss_example state0))))))) = 0
   \<and> i_stopLoss (fst (tx_data (hd (submitted (trace (snd
         (coinToss sdk_example world_example None coin_toss_example state0))))))) = 0"
proof -
  let ?txs = "submitted (trace (snd (coinToss sdk_example world_example None coin_toss_example state0)))"
  have schema: "CoinTossSchema bounds_example
      (JObj [(''face'', JStr ''HEADS''), (''betAmount'', JStr ''1.0''), (''token'', JStr ''ETH''),
             (''stopGain'', JStr ''5''), (''stopLoss'', JStr ''3''),
             (''receiver'', JStr ''0x1111111111111111111111111111111111111111''),
             (''betCount'', JNum 7)]) = Some coin_toss_example"
    by code_simp
  have ne: "?txs \<noteq> []"
    by code_simp
  then have here: "hd ?txs \<in> set ?txs"
    by simp
  have fresh: "hd ?txs \<notin> set (submitted (trace state0))"
    by (simp add: state0_def)
  have addr: "getAddress world_example = ''0x057BcBF736DADD774A8A45A185c1697F4cF7517D''"
    by (simp add: world_example_def)
  from bet_actions_submit_fixed_parameters [of "hd ?txs" sdk_example world_example None
      coin_toss_example state0, OF disjI1 [OF here] fresh] schema ne addr
  show ?thesis by simp
qed

subsection \<open>Where the amount is converted\<close>

text \<open>
  C5 as stated fails: every bet action reads the game's paused flag from the chain before
  it converts the amount. Here the amount \<^verbatim>\<open>"0"\<close> converts to 0, the action fails
  with the amount error, and the run has made a contract read.
\<close>

theorem amount_error_follows_contract_read:
  "parseUnits sdk_example ''0'' 18 = Inr 0
   \<and> fst (coinToss sdk_example world_example None (coin_toss_example\<lparr>betAmount := ''0''\<rparr>) state0)
       = Inl (Error ''The bet amount must be greater than 0'')
   \<and> network_calls (trace (snd (coinToss sdk_example world_example None
         (coin_toss_example\<lparr>betAmount := ''0''\<rparr>) state0)))
       = [ReadContract (GamePaused COINTOSS ''8453'')]"
  by code_simp

text \<open>
  C5, amended. The three bet actions are \<open>betAction\<close> at their game. When the paused
  flag has been read and the token resolved, an amount that converts to a value of at most
  zero makes the action fail with the amount error there and then. Up to that point the
  run has made the paused-flag read and, for a token other than the native one, the read
  of the token list; it makes no call after it: no requirements read, no fee request, no
  transaction, no indexer query.
\<close>

theorem nonpositive_amount_fails_before_placing:
  assumes "checkLiveGame w g s = (Inr paused, s1)"
      and "getBetToken k w (token args) s1 = (Inr tok, s2)"
      and "parseUnits k (betAmount args) (decimals tok) = Inr v"
      and "v \<le> 0"
  shows "betAction k w key g inp args s = (Inl (Error ''The bet amount must be greater than 0''), s2)
       \<and> (\<exists>c. trace s2 = trace s @ [ReadContract (GamePaused g c)]
             \<or> trace s2 = trace s @ [ReadContract (GamePaused g c), ReadContract (GetCasinoTokens c)])"
proof -
  from assms(1) obtain c where c: "getChainId w = Inr c"
    and s1: "s1 = emit (ReadContract (GamePaused g c)) s"
    using checkLiveGame_Inr by blast
  from getBetToken_state [of k w "token args" s1] assms(2) c
  have "s2 = s1 \<or> s2 = emit (ReadContract (GetCasinoTokens c)) s1"
    by auto
  with s1 have "trace s2 = trace s @ [ReadContract (GamePaused g c)]
             \<or> trace s2 = trace s @ [ReadContract (GamePaused g c), ReadContract (GetCasinoTokens c)]"
    by auto
  moreover from assms have "betAction k w key g inp args s
      = (Inl (Error ''The bet amount must be greater than 0''), s2)"
    by (simp add: betAction_def getBetAmountInWei_def)
  ultimately show ?thesis by blast
qed

theorem nonpositive_amount_fails_before_placing_witness:
  "coinToss sdk_example world_example None (coin_toss_example\<lparr>betAmount := ''-1.0''\<rparr>) state0
     = (Inl (Error ''The bet amount must be greater than 0''),
        \<lparr>trace = [ReadContract (GamePaused COINTOSS ''8453'')], now = 0, queries = 0\<rparr>)"
proof -
  let ?args = "coin_toss_example\<lparr>betAmount := ''-1.0''\<rparr>"
  let ?s1 = "\<lparr>trace = [ReadContract (GamePaused COINTOSS ''8453'')], now = 0, queries = 0\<rparr>"
  let ?eth = "\<lparr>symbol = ''ETH'', address = ''0x0000000000000000000000000000000000000000'',
               decimals = 18\<rparr>"
  have 1: "checkLiveGame world_example COINTOSS state0 = (Inr False, ?s1)"
    by code_simp
  have 2: "getBetToken sdk_example world_example (token ?args) ?s1 = (Inr ?eth, ?s1)"
    by code_simp
  have 3: "parseUnits sdk_example (betAmount ?args) (decimals ?eth) = Inr (- (10 ^ 18))"
    by (simp add: sdk_example_def coin_toss_example_def)
  have 4: "- (10 ^ 18) \<le> (0::int)"
    by simp
  from nonpositive_amount_fails_before_placing [OF 1 2 3 4, of None "CoinTossInput (face ?args)"]
  show ?thesis
    by (simp add: coinToss_def)
qed

subsection \<open>Resolving the bet token\<close>

lemma find_Some_in: "find P xs = Some x \<Longrightarrow> x \<in> set xs \<and> P x"
  by (induction xs) (auto split: if_splits)

lemma find_None_iff2: "find P xs = None \<longleftrightarrow> (\<forall>x \<in> set xs. \<not> P x)"
  by (induction xs) auto

text \<open>
  C6 as stated fails on the empty symbol: it is a symbol that was supplied and that differs
  from the native symbol ETH, and \<^verbatim>\<open>getBetToken\<close> answers the native token for it
  without reading the token list (the state is unchanged).
\<close>

theorem empty_symbol_resolves_native_without_fetch:
  "casinoChainById sdk_example ''8453''
     = Some \<lparr>nativeCurrency =
               \<lparr>currency_name = ''Ether'', currency_symbol = ''ETH'', currency_decimals = 18\<rparr>\<rparr>
   \<and> getBetToken sdk_example world_example (Some '''') state0
     = (Inr \<lparr>symbol = ''ETH'', address = ''0x0000000000000000000000000000000000000000'',
            decimals = 18\<rparr>, state0)"
  by code_simp

text \<open>
  C6, amended. On a chain that the SDK knows: for no symbol, the empty symbol or the native
  currency's symbol, \<^verbatim>\<open>getBetToken\<close> returns the native token and makes no call.
  For any other symbol it reads the token list; when the read succeeds it returns the
  first token of the list with exactly that symbol if there is one, and otherwise fails
  with the message that enumerates the symbols of the whole list.
\<close>

theorem getBetToken_resolution:
  assumes "getChainId w = Inr c" and "casinoChainById k c = Some ch"
  shows "(x = None \<or> x = Some [] \<or> x = Some (currency_symbol (nativeCurrency ch))
          \<longrightarrow> getBetToken k w x s = (Inr (chainNativeCurrencyToToken k (nativeCurrency ch)), s))
       \<and> (x = Some y \<and> y \<noteq> [] \<and> y \<noteq> currency_symbol (nativeCurrency ch)
            \<and> getCasinoTokens k w s = (Inr toks, s1)
          \<longrightarrow> s1 = emit (ReadContract (GetCasinoTokens c)) s
            \<and> ((\<exists>t \<in> set toks. symbol t = y)
                 \<longrightarrow> (\<exists>i < length toks.
                        symbol (toks ! i) = y \<and> (\<forall>j < i. symbol (toks ! j) \<noteq> y)
                      \<and> find (\<lambda>t. symbol t = y) toks = Some (toks ! i)
                      \<and> getBetToken k w x s = (Inr (toks ! i), s1)))
            \<and> ((\<forall>t \<in> set toks. symbol t \<noteq> y)
                 \<longrightarrow> getBetToken k w x s =
                       (Inl (Error (''The token must be one of '' @ join '', '' (map symbol toks))), s1)))"
proof (intro conjI impI)
  assume "x = None \<or> x = Some [] \<or> x = Some (currency_symbol (nativeCurrency ch))"
  with assms show "getBetToken k w x s = (Inr (chainNativeCurrencyToToken k (nativeCurrency ch)), s)"
    by (auto simp: getBetToken_def)
next
  assume a: "x = Some y \<and> y \<noteq> [] \<and> y \<noteq> currency_symbol (nativeCurrency ch)
            \<and> getCasinoTokens k w s = (Inr toks, s1)"
  with assms(1) show "s1 = emit (ReadContract (GetCasinoTokens c)) s"
    by (auto simp: getCasinoTokens_def)
  {
    assume "\<exists>t \<in> set toks. symbol t = y"
    then obtain t where t: "find (\<lambda>casinoToken. symbol casinoToken = y) toks = Some t"
      using find_None_iff2 [of "\<lambda>casinoToken. symbol casinoToken = y" toks] by fastforce
    then obtain i where i: "i < length toks" "symbol (toks ! i) = y" "t = toks ! i"
        "\<forall>j < i. symbol (toks ! j) \<noteq> y"
      unfolding find_Some_iff by blast
    moreover from a assms t have "getBetToken k w x s = (Inr t, s1)"
      by (simp add: getBetToken_def)
    ultimately show "\<exists>i < length toks.
                        symbol (toks ! i) = y \<and> (\<forall>j < i. symbol (toks ! j) \<noteq> y)
                      \<and> find (\<lambda>t. symbol t = y) toks = Some (toks ! i)
                      \<and> getBetToken k w x s = (Inr (toks ! i), s1)"
      using t by blast
  }
  {
    assume "\<forall>t \<in> set toks. symbol t \<noteq> y"
    then have "find (\<lambda>casinoToken. symbol casinoToken = y) toks = None"
      by (simp add: find_None_iff2)
    with a assms show "getBetToken k w x s =
        (Inl (Error (''The token must be one of '' @ join '', '' (map symbol toks))), s1)"
      by (simp add: getBetToken_def)
  }
qed

text \<open>The witness: the native symbol and a paused token's symbol in the first world; in
  the world with two allowed USDC tokens, the one listed first.\<close>

theorem getBetToken_resolution_witness:
  "getBetToken sdk_example world_example (Some ''ETH'') state0
     = (Inr \<lparr>symbol = ''ETH'', address = ''0x0000000000000000000000000000000000000000'',
            decimals = 18\<rparr>, state0)
   \<and> getBetToken sdk_example world_listing (Some ''USDC'') state0
     = (Inr \<lparr>symbol = ''USDC'', address = ''0xA'', decimals = 6\<rparr>,
        \<lparr>trace = [ReadContract (GetCasinoTokens ''8453'')], now = 0, queries = 0\<rparr>)
   \<and> getBetToken sdk_example world_example (Some ''DEGEN'') state0
     = (Inl (Error ''The token must be one of USDC''),
        \<lparr>trace = [ReadContract (GetCasinoTokens ''8453'')], now = 0, queries = 0\<rparr>)"
proof -
  let ?ch = "\<lparr>nativeCurrency =
               \<lparr>currency_name = ''Ether'', currency_symbol = ''ETH'', currency_decimals = 18\<rparr>\<rparr>"
  let ?eth = "\<lparr>symbol = ''ETH'', address = ''0x0000000000000000000000000000000000000000'',
               decimals = 18\<rparr>"
  let ?usdc = "\<lparr>symbol = ''USDC'', address = ''0xA'', decimals = 6\<rparr>"
  let ?usdc2 = "\<lparr>symbol = ''USDC'', address = ''0xD'', decimals = 6\<rparr>"
  let ?s1 = "\<lparr>trace = [ReadContract (GetCasinoTokens ''8453'')], now = 0, queries = 0\<rparr>"
  have c: "getChainId world_example = Inr ''8453''"
    by code_simp
  have c': "getChainId world_listing = Inr ''8453''"
    by code_simp
  have ch: "casinoChainById sdk_example ''8453'' = Some ?ch"
    by code_simp
  have toks: "getCasinoTokens sdk_example world_example state0 = (Inr [?usdc], ?s1)"
    by code_simp
  have toks': "getCasinoTokens sdk_example world_listing state0 = (Inr [?eth, ?usdc, ?usdc2], ?s1)"
    by code_simp
  from getBetToken_resolution [OF c ch, of "Some ''ETH''" state0]
  have 1: "getBetToken sdk_example world_example (Some ''ETH'') state0 = (Inr ?eth, state0)"
    by (simp add: sdk_example_def)
  from getBetToken_resolution [OF c' ch, of "Some ''USDC''" state0 "''USDC''"
      "[?eth, ?usdc, ?usdc2]" ?s1] toks'
  have 2: "getBetToken sdk_example world_listing (Some ''USDC'') state0 = (Inr ?usdc, ?s1)"
    by auto
  from getBetToken_resolution [OF c ch, of "Some ''DEGEN''" state0 "''DEGEN''" "[?usdc]" ?s1] toks
  have 3: "getBetToken sdk_example world_example (Some ''DEGEN'') state0
     = (Inl (Error ''The token must be one of USDC''), ?s1)"
    by simp
  from 1 2 3 show ?thesis by (intro conjI)
qed

subsection \<open>The value of the transaction\<close>

lemma bigint_div_nonneg: "0 \<le> a \<Longrightarrow> 0 < b \<Longrightarrow> bigint_div a b = a div b"
  by (cases "a = 0") (simp_all add: bigint_div_def)

text \<open>
  C7 as stated fails when the fee API answers a negative integer: for \<^verbatim>\<open>-1\<close> the
  submission succeeds and the cost handed to \<^verbatim>\<open>getValue\<close> is
  \<^verbatim>\<open>-1n * 120n / 100n = -1n\<close>, whereas the floor of \<open>-1.2\<close> is \<open>-2\<close>.
\<close>

theorem negative_fee_is_truncated_not_floored:
  "fst (placeBet sdk_example world_negative_fee COINTOSS (CoinTossInput HEADS) 19400 params_example state0)
     = Inr ''0x34a67177f658a0d45de95c6f34c3b9a868bee1ebf1f612a635ddf5e6c262376e''
   \<and> map tx_value (submitted (trace (snd (placeBet sdk_example world_negative_fee COINTOSS
         (CoinTossInput HEADS) 19400 params_example state0))))
     = [getValue sdk_example (placeBet_inputs COINTOSS (CoinTossInput HEADS) params_example) ''8453'' (- 1)]
   \<and> getValue sdk_example (placeBet_inputs COINTOSS (CoinTossInput HEADS) params_example) ''8453'' (- 1)
     \<noteq> getValue sdk_example (placeBet_inputs COINTOSS (CoinTossInput HEADS) params_example) ''8453''
           \<lfloor>(- 1 * 120 / 100 :: real)\<rfloor>"
  by code_simp

text \<open>
  C7, amended. In every run of \<^verbatim>\<open>placeBet\<close> that returns a transaction hash, the fee
  API answered an integer \<open>fee\<close>, exactly one transaction was submitted, and its value
  is \<^verbatim>\<open>getValue\<close> of the cost \<open>fee * 120 / 100\<close> in bigint arithmetic, that is
  truncated towards zero; for a fee that is not negative this is the floor of
  \<open>fee * 120 / 100\<close>.
\<close>

theorem placeBet_value_uses_inflated_fee:
  assumes "placeBet k w g inp m p s = (Inr h, s')"
  shows "\<exists>c response fee.
           getChainId w = Inr c
         \<and> fetch_vrfFees w g (address (p_betToken p)) (p_betCount p) c = Inr response
         \<and> ok response \<and> json_BigInt response = Inr fee
         \<and> submitted (trace s') = submitted (trace s) @
              [\<lparr>tx_to = placeBet_to k (placeBet_inputs g inp p) c,
                tx_data = (placeBet_inputs g inp p, c),
                tx_value = getValue k (placeBet_inputs g inp p) c (bigint_div (fee * 120) 100)\<rparr>]
         \<and> (0 \<le> fee \<longrightarrow> bigint_div (fee * 120) 100 = fee * 120 div 100)"
  using assms
  by (auto simp: placeBet_def getBetRequirements_def getChainlinkVrfCost_def Let_def
      catch_rethrow_def bigint_div_nonneg split: sum.splits prod.splits if_splits option.splits)

theorem placeBet_value_uses_inflated_fee_witness:
  "map tx_value (submitted (trace (snd (placeBet sdk_example world_example COINTOSS
       (CoinTossInput HEADS) 19400 params_example state0))))
     = [getValue sdk_example (placeBet_inputs COINTOSS (CoinTossInput HEADS) params_example)
          ''8453'' (1000 * 120 div 100)]"
proof -
  let ?run = "placeBet sdk_example world_example COINTOSS (CoinTossInput HEADS) 19400
                params_example state0"
  have run: "?run = (Inr ''0x34a67177f658a0d45de95c6f34c3b9a868bee1ebf1f612a635ddf5e6c262376e'',
                     snd ?run)"
    by code_simp
  have c: "getChainId world_example = Inr ''8453''"
    by code_simp
  have api: "fetch_vrfFees world_example COINTOSS (address (p_betToken params_example))
               (p_betCount params_example) ''8453''
             = Inr \<lparr>ok = True, statusText = ''OK'', json_BigInt = Inr 1000\<rparr>"
    by (simp add: world_example_def)
  from placeBet_value_uses_inflated_fee [OF run] c api
  have "submitted (trace (snd ?run)) = submitted (trace state0) @
      [\<lparr>tx_to = placeBet_to sdk_example
                 (placeBet_inputs COINTOSS (CoinTossInput HEADS) params_example) ''8453'',
        tx_data = (placeBet_inputs COINTOSS (CoinTossInput HEADS) params_example, ''8453''),
        tx_value = getValue sdk_example
                 (placeBet_inputs COINTOSS (CoinTossInput HEADS) params_example) ''8453''
                 (1000 * 120 div 100)\<rparr>]"
    by auto
  then show ?thesis
    by (simp add: state0_def)
qed

subsection \<open>Errors of the list query\<close>

text \<open>
  C8 as stated fails: the caller does not receive the indexer's error as it is. For the
  indexer error with code 429 and message \<^verbatim>\<open>rate limited\<close> the operation throws a
  new error, whose message is a longer text around the two.
\<close>

theorem indexer_error_is_rewrapped:
  "fst (getSubgraphBets sdk_example world_indexer_error None None None state0)
     = Inl (Thrown ''Error''
         ''An error occured while getting the bet: Error: [429] Error fetching bets: rate limited'')
   \<and> ''An error occured while getting the bet: Error: [429] Error fetching bets: rate limited''
       \<noteq> ''rate limited''"
  by code_simp

text \<open>
  C8, amended. When the indexer reports an error for the list query, the operation fails
  with a new error whose message is \<^verbatim>\<open>An error occured while getting the bet: Error: \<close>
  followed by the error's code in brackets, \<^verbatim>\<open> Error fetching bets: \<close> and the
  error's message; the indexer was queried once.
\<close>

theorem getSubgraphBets_wraps_indexer_error:
  assumes "getChainId w = Inr c"
      and "fetchBets w c key b g = Inr bets"
      and "reply_bets_error bets = Some err"
  shows "getSubgraphBets k w b g key s =
           (Inl (Error (''An error occured while getting the bet: Error: ['' @ err_code err
                        @ ''] Error fetching bets: '' @ err_message err)),
            emit (IndexerBets c b g) s)"
  using assms
  by (simp add: getSubgraphBets_def catch_rethrow_def toString_def Error_def)

theorem getSubgraphBets_wraps_indexer_error_witness:
  "getSubgraphBets sdk_example world_indexer_error None None None state0
     = (Inl (Error ''An error occured while getting the bet: Error: [429] Error fetching bets: rate limited''),
        \<lparr>trace = [IndexerBets ''8453'' None None], now = 0, queries = 0\<rparr>)"
proof -
  have c: "getChainId world_indexer_error = Inr ''8453''"
    by code_simp
  have f: "fetchBets world_indexer_error ''8453'' None None None
             = Inr \<lparr>reply_bets = [],
                    reply_bets_error = Some \<lparr>err_code = ''429'', err_message = ''rate limited''\<rparr>\<rparr>"
    by (simp add: world_indexer_error_def)
  from getSubgraphBets_wraps_indexer_error [OF c f, of _ sdk_example state0]
  show ?thesis
    by (simp add: emit_def state0_def)
qed

subsection \<open>The token list\<close>

lemma getCasinoTokens_eq:
  assumes "getChainId w = Inr c" and "readContract_casinoTokens w c = Inr raws"
  shows "getCasinoTokens k w s =
           (Inr (map (\<lambda>r. (rawTokenToToken k r c)\<lparr>decimals := raw_decimals r\<rparr>)
                   (filter (\<lambda>r. raw_allowed r \<and> \<not> raw_paused r) raws)),
            emit (ReadContract (GetCasinoTokens c)) s)"
  using assms by (simp add: getCasinoTokens_def)

lemma getBetToken_lookup:
  assumes "getChainId w = Inr c"
      and "casinoChainById k c = Some ch"
      and "y \<noteq> []" and "y \<noteq> currency_symbol (nativeCurrency ch)"
      and "getCasinoTokens k w s = (Inr toks, s1)"
  shows "getBetToken k w (Some y) s =
        (case find (\<lambda>t. symbol t = y) toks of
           None \<Rightarrow> (Inl (Error (''The token must be one of '' @ join '', '' (map symbol toks))), s1)
         | Some t \<Rightarrow> (Inr t, s1))"
  using assms by (simp add: getBetToken_def)

text \<open>
  C10 as stated fails where two tokens of the bank share a symbol: the symbol USDC belongs
  to a token that is not allowed (address \<^verbatim>\<open>0xC\<close>), and it resolves through the list
  lookup, to the allowed token of that symbol (address \<^verbatim>\<open>0xA\<close>).
\<close>

theorem symbol_of_disallowed_token_resolves:
  "readContract_casinoTokens world_example ''8453'' = Inr
      [\<lparr>raw_symbol = ''USDC'', raw_tokenAddress = ''0xA'', raw_decimals = 6,
        raw_allowed = True, raw_paused = False\<rparr>,
       \<lparr>raw_symbol = ''DEGEN'', raw_tokenAddress = ''0xB'', raw_decimals = 18,
        raw_allowed = True, raw_paused = True\<rparr>,
       \<lparr>raw_symbol = ''USDC'', raw_tokenAddress = ''0xC'', raw_decimals = 6,
        raw_allowed = False, raw_paused = False\<rparr>]
   \<and> getBetToken sdk_example world_example (Some ''USDC'') state0
     = (Inr \<lparr>symbol = ''USDC'', address = ''0xA'', decimals = 6\<rparr>,
        \<lparr>trace = [ReadContract (GetCasinoTokens ''8453'')], now = 0, queries = 0\<rparr>)"
  by code_simp

text \<open>
  C10, amended. Every token of the list that \<^verbatim>\<open>getCasinoTokens\<close> returns is the
  conversion of a raw record that is allowed and not paused. Hence, for a symbol that goes
  through the list lookup of \<^verbatim>\<open>getBetToken\<close>: a token it resolves to stems from an
  allowed, unpaused record; the failure message enumerates the symbols of the allowed,
  unpaused records only; and a symbol that the SDK's conversion gives to disallowed or
  paused records of the list only does not resolve. The last holds of the raw symbol too,
  wherever the conversion gives each record of the list its raw symbol or the symbol of
  the chain's native currency: a raw symbol that only disallowed or paused records carry
  does not resolve.
\<close>

theorem casino_tokens_allowed_and_live:
  assumes "getChainId w = Inr c"
      and "readContract_casinoTokens w c = Inr raws"
      and "getCasinoTokens k w s = (Inr toks, s1)"
  shows "(\<forall>t \<in> set toks. \<exists>r \<in> set raws. raw_allowed r \<and> \<not> raw_paused r
             \<and> t = (rawTokenToToken k r c)\<lparr>decimals := raw_decimals r\<rparr>)
       \<and> (casinoChainById k c = Some ch \<and> y \<noteq> [] \<and> y \<noteq> currency_symbol (nativeCurrency ch)
          \<longrightarrow> (\<forall>t s2. getBetToken k w (Some y) s = (Inr t, s2)
                  \<longrightarrow> (\<exists>r \<in> set raws. raw_allowed r \<and> \<not> raw_paused r
                         \<and> t = (rawTokenToToken k r c)\<lparr>decimals := raw_decimals r\<rparr>))
            \<and> (\<forall>e s2. getBetToken k w (Some y) s = (Inl e, s2)
                  \<longrightarrow> e = Error (''The token must be one of '' @ join '', ''
                         (map (\<lambda>r. symbol (rawTokenToToken k r c))
                            (filter (\<lambda>r. raw_allowed r \<and> \<not> raw_paused r) raws))))
            \<and> ((\<forall>r \<in> set raws. symbol (rawTokenToToken k r c) = y
                     \<longrightarrow> \<not> raw_allowed r \<or> raw_paused r)
               \<longrightarrow> (\<exists>e. fst (getBetToken k w (Some y) s) = Inl e))
            \<and> ((\<forall>r \<in> set raws. symbol (rawTokenToToken k r c) = raw_symbol r
                     \<or> symbol (rawTokenToToken k r c) = currency_symbol (nativeCurrency ch))
                 \<and> (\<forall>r \<in> set raws. raw_symbol r = y \<longrightarrow> \<not> raw_allowed r \<or> raw_paused r)
               \<longrightarrow> (\<exists>e. fst (getBetToken k w (Some y) s) = Inl e)))"
proof (intro conjI impI allI)
  let ?conv = "\<lambda>r. (rawTokenToToken k r c)\<lparr>decimals := raw_decimals r\<rparr>"
  let ?live = "\<lambda>r. raw_allowed r \<and> \<not> raw_paused r"
  from assms have toks: "toks = map ?conv (filter ?live raws)"
    using getCasinoTokens_eq [of w c raws k s] by simp
  show origin: "\<forall>t \<in> set toks. \<exists>r \<in> set raws. raw_allowed r \<and> \<not> raw_paused r \<and> t = ?conv r"
    unfolding toks by auto
  have symbols: "map symbol toks = map (\<lambda>r. symbol (rawTokenToToken k r c)) (filter ?live raws)"
    unfolding toks by simp
  {
    fix t s2
    assume ch: "casinoChainById k c = Some ch \<and> y \<noteq> [] \<and> y \<noteq> currency_symbol (nativeCurrency ch)"
      and res: "getBetToken k w (Some y) s = (Inr t, s2)"
    from ch assms have "getBetToken k w (Some y) s =
        (case find (\<lambda>t. symbol t = y) toks of
           None \<Rightarrow> (Inl (Error (''The token must be one of '' @ join '', '' (map symbol toks))), s1)
         | Some t \<Rightarrow> (Inr t, s1))"
      using getBetToken_lookup [of w c k ch y s toks s1] by simp
    with res have "find (\<lambda>t. symbol t = y) toks = Some t"
      by (simp split: option.splits)
    then have "t \<in> set toks"
      using find_Some_in by fastforce
    with origin show "\<exists>r \<in> set raws. raw_allowed r \<and> \<not> raw_paused r \<and> t = ?conv r"
      by blast
  }
  {
    fix e s2
    assume ch: "casinoChainById k c = Some ch \<and> y \<noteq> [] \<and> y \<noteq> currency_symbol (nativeCurrency ch)"
      and res: "getBetToken k w (Some y) s = (Inl e, s2)"
    from ch assms have "getBetToken k w (Some y) s =
        (case find (\<lambda>t. symbol t = y) toks of
           None \<Rightarrow> (Inl (Error (''The token must be one of '' @ join '', '' (map symbol toks))), s1)
         | Some t \<Rightarrow> (Inr t, s1))"
      using getBetToken_lookup [of w c k ch y s toks s1] by simp
    with res have "e = Error (''The token must be one of '' @ join '', '' (map symbol toks))"
      by (simp split: option.splits)
    then show "e = Error (''The token must be one of '' @ join '', ''
                         (map (\<lambda>r. symbol (rawTokenToToken k r c)) (filter ?live raws)))"
      by (simp only: symbols)
  }
  have unlisted: "\<exists>e. fst (getBetToken k w (Some y) s) = Inl e"
    if ch: "casinoChainById k c = Some ch \<and> y \<noteq> [] \<and> y \<noteq> currency_symbol (nativeCurrency ch)"
      and dead: "\<forall>r \<in> set raws. symbol (rawTokenToToken k r c) = y
                     \<longrightarrow> \<not> raw_allowed r \<or> raw_paused r"
  proof -
    from ch assms have lookup: "getBetToken k w (Some y) s =
        (case find (\<lambda>t. symbol t = y) toks of
           None \<Rightarrow> (Inl (Error (''The token must be one of '' @ join '', '' (map symbol toks))), s1)
         | Some t \<Rightarrow> (Inr t, s1))"
      using getBetToken_lookup [of w c k ch y s toks s1] by simp
    from dead have "\<forall>t \<in> set toks. symbol t \<noteq> y"
      unfolding toks by auto
    then have "find (\<lambda>t. symbol t = y) toks = None"
      by (simp add: find_None_iff2)
    with lookup show ?thesis
      by simp
  qed
  {
    assume ch: "casinoChainById k c = Some ch \<and> y \<noteq> [] \<and> y \<noteq> currency_symbol (nativeCurrency ch)"
      and dead: "\<forall>r \<in> set raws. symbol (rawTokenToToken k r c) = y
                     \<longrightarrow> \<not> raw_allowed r \<or> raw_paused r"
    then show "\<exists>e. fst (getBetToken k w (Some y) s) = Inl e"
      by (rule unlisted)
  }
  {
    assume ch: "casinoChainById k c = Some ch \<and> y \<noteq> [] \<and> y \<noteq> currency_symbol (nativeCurrency ch)"
      and raw: "(\<forall>r \<in> set raws. symbol (rawTokenToToken k r c) = raw_symbol r
                     \<or> symbol (rawTokenToToken k r c) = currency_symbol (nativeCurrency ch))
                 \<and> (\<forall>r \<in> set raws. raw_symbol r = y \<longrightarrow> \<not> raw_allowed r \<or> raw_paused r)"
    have "\<forall>r \<in> set raws. symbol (rawTokenToToken k r c) = y
                     \<longrightarrow> \<not> raw_allowed r \<or> raw_paused r"
    proof (intro ballI impI)
      fix r
      assume r: "r \<in> set raws" and y: "symbol (rawTokenToToken k r c) = y"
      from ch y have "symbol (rawTokenToToken k r c) \<noteq> currency_symbol (nativeCurrency ch)"
        by simp
      with raw r have "symbol (rawTokenToToken k r c) = raw_symbol r"
        by blast
      with y have "raw_symbol r = y"
        by simp
      with raw r show "\<not> raw_allowed r \<or> raw_paused r"
        by blast
    qed
    with ch show "\<exists>e. fst (getBetToken k w (Some y) s) = Inl e"
      by (rule unlisted)
  }
qed

text \<open>The witness: a list whose native record does not keep its raw symbol; DEGEN, which
  only a paused record carries, does not resolve.\<close>

theorem casino_tokens_allowed_and_live_witness:
  "fst (getCasinoTokens sdk_example world_listing state0)
     = Inr [\<lparr>symbol = ''ETH'', address = ''0x0000000000000000000000000000000000000000'',
             decimals = 18\<rparr>,
            \<lparr>symbol = ''USDC'', address = ''0xA'', decimals = 6\<rparr>,
            \<lparr>symbol = ''USDC'', address = ''0xD'', decimals = 6\<rparr>]
   \<and> isl (fst (getBetToken sdk_example world_listing (Some ''DEGEN'') state0))"
proof -
  let ?ch = "\<lparr>nativeCurrency =
               \<lparr>currency_name = ''Ether'', currency_symbol = ''ETH'', currency_decimals = 18\<rparr>\<rparr>"
  let ?toks = "[\<lparr>symbol = ''ETH'', address = ''0x0000000000000000000000000000000000000000'',
             decimals = 18\<rparr>,
            \<lparr>symbol = ''USDC'', address = ''0xA'', decimals = 6\<rparr>,
            \<lparr>symbol = ''USDC'', address = ''0xD'', decimals = 6\<rparr>]"
  let ?s1 = "\<lparr>trace = [ReadContract (GetCasinoTokens ''8453'')], now = 0, queries = 0\<rparr>"
  let ?raws = "[\<lparr>raw_symbol = ''NATIVE'',
           raw_tokenAddress = ''0x0000000000000000000000000000000000000000'',
           raw_decimals = 18, raw_allowed = True, raw_paused = False\<rparr>,
          \<lparr>raw_symbol = ''USDC'', raw_tokenAddress = ''0xA'', raw_decimals = 6,
           raw_allowed = True, raw_paused = False\<rparr>,
          \<lparr>raw_symbol = ''DEGEN'', raw_tokenAddress = ''0xB'', raw_decimals = 18,
           raw_allowed = True, raw_paused = True\<rparr>,
          \<lparr>raw_symbol = ''USDC'', raw_tokenAddress = ''0xD'', raw_decimals = 6,
           raw_allowed = True, raw_paused = False\<rparr>]"
  have c: "getChainId world_listing = Inr ''8453''"
    by code_simp
  have raws: "readContract_casinoTokens world_listing ''8453'' = Inr ?raws"
    by (simp add: world_listing_def)
  have toks: "getCasinoTokens sdk_example world_listing state0 = (Inr ?toks, ?s1)"
    by code_simp
  have ch: "casinoChainById sdk_example ''8453'' = Some ?ch \<and> ''DEGEN'' \<noteq> []
      \<and> ''DEGEN'' \<noteq> currency_symbol (nativeCurrency ?ch)"
    by (simp add: sdk_example_def)
  have kept: "\<forall>r \<in> set ?raws. symbol (rawTokenToToken sdk_example r ''8453'') = raw_symbol r
      \<or> symbol (rawTokenToToken sdk_example r ''8453'') = currency_symbol (nativeCurrency ?ch)"
    by (simp add: sdk_example_def)
  have dead: "\<forall>r \<in> set ?raws. raw_symbol r = ''DEGEN'' \<longrightarrow> \<not> raw_allowed r \<or> raw_paused r"
    by simp
  note parts = casino_tokens_allowed_and_live [OF c raws toks, of ?ch "''DEGEN''"]
  from parts [THEN conjunct2, THEN mp, OF ch]
  have "(\<forall>r \<in> set ?raws. symbol (rawTokenToToken sdk_example r ''8453'') = raw_symbol r
            \<or> symbol (rawTokenToToken sdk_example r ''8453'') = currency_symbol (nativeCurrency ?ch))
        \<and> (\<forall>r \<in> set ?raws. raw_symbol r = ''DEGEN'' \<longrightarrow> \<not> raw_allowed r \<or> raw_paused r)
      \<longrightarrow> (\<exists>e. fst (getBetToken sdk_example world_listing (Some ''DEGEN'') state0) = Inl e)"
    by (elim conjE)
  with kept dead
  have "\<exists>e. fst (getBetToken sdk_example world_listing (Some ''DEGEN'') state0) = Inl e"
    by blast
  with toks show ?thesis
    by auto
qed

subsection \<open>The resolution poller\<close>

lemma poll_stop:
  "\<not> pending r \<Longrightarrow> poll w h c key t0 r s = (Inr r, s)"
  by (subst poll.simps) simp

lemma poll_timeout:
  "pending r \<Longrightarrow> 60000 \<le> now s - t0 \<Longrightarrow>
     poll w h c key t0 r s = (Inl (Error ''Timeout: Bet data retrieval exceeded 1 minute.''), s)"
  by (subst poll.simps) simp

lemma poll_step:
  assumes "pending r" and "now s - t0 < 60000"
      and "await_fetchBetByHash w h c key False (setTimeout w 1000 s) = (Inr r', s')"
  shows "poll w h c key t0 r s = poll w h c key t0 r' s'"
proof (cases "reply_error r' \<noteq> None")
  case True
  then have "\<not> pending r'"
    by (simp add: pending_def)
  then have "poll w h c key t0 r' s' = (Inr r', s')"
    by (rule poll_stop)
  with assms True show ?thesis
    by (subst poll.simps) simp
next
  case False
  with assms show ?thesis
    by (subst poll.simps) simp
qed

lemma poll_attempts:
  assumes "\<forall>i<n. \<exists>r. fst (attempt w h c key s i) = Inr r \<and> pending r
              \<and> now (snd (attempt w h c key s i)) - t0 < 60000"
      and "fst (attempt w h c key s 0) = Inr r0"
      and "fst (attempt w h c key s n) = Inr rn"
  shows "poll w h c key t0 r0 (snd (attempt w h c key s 0))
       = poll w h c key t0 rn (snd (attempt w h c key s n))"
  using assms
proof (induction n arbitrary: rn)
  case 0
  then show ?case by simp
next
  case (Suc n)
  from Suc.prems(1) obtain r where r: "fst (attempt w h c key s n) = Inr r" "pending r"
      "now (snd (attempt w h c key s n)) - t0 < 60000"
    by blast
  from Suc.prems(1) have "\<forall>i<n. \<exists>r. fst (attempt w h c key s i) = Inr r \<and> pending r
              \<and> now (snd (attempt w h c key s i)) - t0 < 60000"
    by simp
  with Suc.IH [of r] Suc.prems(2) r(1)
  have "poll w h c key t0 r0 (snd (attempt w h c key s 0))
       = poll w h c key t0 r (snd (attempt w h c key s n))"
    by simp
  also have "\<dots> = poll w h c key t0 rn (snd (attempt w h c key s (Suc n)))"
  proof (rule poll_step [OF r(2) r(3)])
    from Suc.prems(3)
    show "await_fetchBetByHash w h c key False (setTimeout w 1000 (snd (attempt w h c key s n)))
        = (Inr rn, snd (attempt w h c key s (Suc n)))"
      by (simp add: prod_eq_iff)
  qed
  finally show ?case .
qed

lemma queries_attempt: "queries (snd (attempt w h c key s n)) = queries s + Suc n"
  by (induction n) (simp_all add: await_fetchBetByHash_def setTimeout_def emit_def)

lemma getBet_poll:
  assumes "getChainId w = Inr c" and "fst (attempt w h c key s 0) = Inr r0"
  shows "getBet k w h key s =
     (case poll w h c key (now (snd (attempt w h c key s 0))) r0 (snd (attempt w h c key s 0)) of
        (r, s2) \<Rightarrow>
          (catch_rethrow ''An error occured while getting the bet: ''
             (case r of
                Inl e \<Rightarrow> Inl e
              | Inr betData \<Rightarrow>
                  (case reply_error betData of
                     Some err \<Rightarrow>
                       Inl (Error (''['' @ err_code err @ ''] Error fetching bet: '' @ err_message err))
                   | None \<Rightarrow>
                       (case reply_bet betData of
                          None \<Rightarrow>
                            Inl (Error (''The bet hasn't been indexed in time, please retry later: '' @ h))
                        | Some bet \<Rightarrow> Inr (betDetails k c bet)))),
           s2))"
  using assms by (cases "await_fetchBetByHash w h c key True s") (simp add: getBet_def Let_def)

lemma poll_step_state:
  assumes "await_fetchBetByHash w h c key False (setTimeout w 1000 s) = (r, s1)"
  shows "queries s1 = Suc (queries s)" and "now s + 1000 \<le> now s1"
  using assms by (auto simp: await_fetchBetByHash_def setTimeout_def emit_def)

lemma poll_queries_bound:
  "queries (snd (poll w h c key t0 b s)) \<le> queries s + nat ((t0 + 60999 - now s) div 1000)"
proof (induction w h c key t0 b s rule: poll.induct)
  case (1 w txHash c key startTime betData s)
  obtain r s1 where f: "await_fetchBetByHash w txHash c key False (setTimeout w 1000 s) = (r, s1)"
    by (cases "await_fetchBetByHash w txHash c key False (setTimeout w 1000 s)")
  note st = poll_step_state [OF f]
  show ?case
  proof (cases "pending betData \<and> \<not> 60000 \<le> now s - startTime")
    case False
    then show ?thesis by (subst poll.simps) auto
  next
    case True
    then have X: "1000 \<le> startTime + 60999 - now s" by simp
    then have one: "1 \<le> (startTime + 60999 - now s) div 1000"
      by (simp add: pos_imp_zdiv_pos_iff)
    show ?thesis
    proof (cases "\<exists>b1. r = Inr b1 \<and> reply_error b1 = None")
      case False
      with True f have "snd (poll w txHash c key startTime betData s) = s1"
        by (subst poll.simps) (auto split: sum.splits)
      with st(1) one show ?thesis by simp
    next
      case True
      then obtain b1 where b1: "r = Inr b1" "reply_error b1 = None" by blast
      with \<open>pending betData \<and> \<not> 60000 \<le> now s - startTime\<close> f
      have eq: "poll w txHash c key startTime betData s = poll w txHash c key startTime b1 s1"
        by (subst poll.simps) simp
      from "1.IH" [of r s1 b1] \<open>pending betData \<and> \<not> 60000 \<le> now s - startTime\<close> f b1
      have "queries (snd (poll w txHash c key startTime b1 s1))
          \<le> queries s1 + nat ((startTime + 60999 - now s1) div 1000)"
        by simp
      also have "(startTime + 60999 - now s1) div 1000 \<le> (startTime + 60999 - now s - 1000) div 1000"
        using st(2) by (intro zdiv_mono1) simp_all
      then have "queries s1 + nat ((startTime + 60999 - now s1) div 1000)
          \<le> queries s1 + nat ((startTime + 60999 - now s - 1000) div 1000)"
        by simp
      also have "(startTime + 60999 - now s - 1000) div 1000 = (startTime + 60999 - now s) div 1000 - 1"
        by simp
      also have "queries s1 + nat ((startTime + 60999 - now s) div 1000 - 1)
          = queries s + nat ((startTime + 60999 - now s) div 1000)"
        using st(1) one by simp
      finally show ?thesis unfolding eq .
    qed
  qed
qed

lemma getBet_queries_bound:
  "queries (snd (getBet k w h key s)) \<le> queries s + 61"
proof (cases "getChainId w")
  case (Inl e)
  then show ?thesis by (simp add: getBet_def)
next
  case (Inr c)
  obtain r s1 where f: "await_fetchBetByHash w h c key True s = (r, s1)"
    by (cases "await_fetchBetByHash w h c key True s")
  then have q: "queries s1 = Suc (queries s)"
    by (auto simp: await_fetchBetByHash_def emit_def)
  show ?thesis
  proof (cases r)
    case (Inl e)
    with Inr f q show ?thesis by (simp add: getBet_def)
  next
    case (Inr b)
    obtain r2 s2 where p: "poll w h c key (now s1) b s1 = (r2, s2)"
      by (cases "poll w h c key (now s1) b s1")
    from poll_queries_bound [of w h c key "now s1" b s1] p
    have "queries s2 \<le> queries s1 + 60" by simp
    with \<open>getChainId w = Inr c\<close> Inr f q p show ?thesis by (simp add: getBet_def)
  qed
qed

text \<open>
  C2 as stated fails in its last part. The deadline is looked at before each wait only: an
  answer to a poll that was begun in time is taken whenever it arrives. Here the first
  answer is unresolved, the second one arrives 71 seconds after the first and reports the
  bet resolved; within 60 seconds the indexer has reported neither a resolution nor an
  error, and the call returns the record instead of failing with the timeout error.
\<close>

theorem late_answer_is_returned_after_deadline:
  "fst (attempt world_slow hash_example ''8453'' None state0 0) = Inr unresolved_reply
   \<and> pending unresolved_reply
   \<and> now (snd (attempt world_slow hash_example ''8453'' None state0 1))
       - now (snd (attempt world_slow hash_example ''8453'' None state0 0)) = 71000
   \<and> fst (getBet sdk_example world_slow hash_example None state0)
       = Inr (betDetails sdk_example ''8453'' bet_example)
   \<and> queries (snd (getBet sdk_example world_slow hash_example None state0)) = 2"
  by code_simp

text \<open>
  C2, amended. Take a run whose answers before the \<open>n\<close>-th are all unresolved and free of
  errors, each examined less than 60 seconds after the first fetch returned. If the
  \<open>n\<close>-th answer reports the bet resolved, its record is returned, whenever that answer
  arrives. If it reports an error, the call fails with that error's code and message and
  without a further wait or query. If it reports neither and 60 seconds or more have
  passed since the first fetch returned, the call fails with the timeout error and without
  a further wait or query. In each case the indexer has been queried \<open>n + 1\<close> times; and
  no run at all queries it more than 61 times.
\<close>

theorem getBet_poller:
  assumes "getChainId w = Inr c"
      and "\<forall>i<n. \<exists>r. fst (attempt w h c key s i) = Inr r \<and> pending r
              \<and> now (snd (attempt w h c key s i)) - now (snd (attempt w h c key s 0)) < 60000"
      and "fst (attempt w h c key s n) = Inr r"
  shows "(reply_error r = None \<and> reply_bet r = Some b \<and> isResolved b
            \<longrightarrow> getBet k w h key s = (Inr (betDetails k c b), snd (attempt w h c key s n)))
       \<and> (reply_error r = Some err
            \<longrightarrow> getBet k w h key s =
                  (Inl (Error (''An error occured while getting the bet: Error: ['' @ err_code err
                               @ ''] Error fetching bet: '' @ err_message err)),
                   snd (attempt w h c key s n)))
       \<and> (pending r
            \<and> 60000 \<le> now (snd (attempt w h c key s n)) - now (snd (attempt w h c key s 0))
            \<longrightarrow> getBet k w h key s =
                  (Inl (Error ''An error occured while getting the bet: Error: Timeout: Bet data retrieval exceeded 1 minute.''),
                   snd (attempt w h c key s n)))
       \<and> queries (snd (attempt w h c key s n)) = queries s + Suc n
       \<and> queries (snd (getBet k w h key s)) \<le> queries s + 61"
proof -
  let ?t0 = "now (snd (attempt w h c key s 0))"
  let ?sn = "snd (attempt w h c key s n)"
  obtain r0 where r0: "fst (attempt w h c key s 0) = Inr r0"
  proof (cases n)
    case 0
    with assms(3) that show ?thesis by simp
  next
    case (Suc m)
    with assms(2) that show ?thesis by blast
  qed
  have reach: "poll w h c key ?t0 r0 (snd (attempt w h c key s 0)) = poll w h c key ?t0 r ?sn"
    using assms(2) r0 assms(3) by (rule poll_attempts)
  note run = getBet_poll [OF assms(1) r0, of k, unfolded reach]
  have a: "getBet k w h key s = (Inr (betDetails k c b), ?sn)"
    if "reply_error r = None \<and> reply_bet r = Some b \<and> isResolved b"
  proof -
    from that have "\<not> pending r" by (simp add: pending_def)
    then have "poll w h c key ?t0 r ?sn = (Inr r, ?sn)" by (rule poll_stop)
    with that show ?thesis
      unfolding run by (simp add: catch_rethrow_def)
  qed
  have b: "getBet k w h key s =
                  (Inl (Error (''An error occured while getting the bet: Error: ['' @ err_code err
                               @ ''] Error fetching bet: '' @ err_message err)), ?sn)"
    if "reply_error r = Some err"
  proof -
    from that have "\<not> pending r" by (simp add: pending_def)
    then have "poll w h c key ?t0 r ?sn = (Inr r, ?sn)" by (rule poll_stop)
    with that show ?thesis
      unfolding run by (simp add: catch_rethrow_def toString_def Error_def)
  qed
  have c: "getBet k w h key s =
                  (Inl (Error ''An error occured while getting the bet: Error: Timeout: Bet data retrieval exceeded 1 minute.''), ?sn)"
    if "pending r \<and> 60000 \<le> now ?sn - ?t0"
  proof -
    from that have "poll w h c key ?t0 r ?sn
        = (Inl (Error ''Timeout: Bet data retrieval exceeded 1 minute.''), ?sn)"
      by (simp add: poll_timeout)
    then show ?thesis
      unfolding run by (simp add: catch_rethrow_def toString_def Error_def)
  qed
  from a b c queries_attempt [of w h c key s n] getBet_queries_bound [of k w h key s]
  show ?thesis
    by blast
qed

theorem getBet_poller_witness:
  "getBet sdk_example world_example hash_example None state0
     = (Inr (betDetails sdk_example ''8453'' bet_example),
        snd (attempt world_example hash_example ''8453'' None state0 2))
   \<and> getBet sdk_example world_bet_error hash_example None state0
     = (Inl (Error ''An error occured while getting the bet: Error: [404] Error fetching bet: not found''),
        snd (attempt world_bet_error hash_example ''8453'' None state0 1))
   \<and> getBet sdk_example world_stalled hash_example None state0
     = (Inl (Error ''An error occured while getting the bet: Error: Timeout: Bet data retrieval exceeded 1 minute.''),
        snd (attempt world_stalled hash_example ''8453'' None state0 2))"
proof -
  let ?A = "\<lambda>w. attempt w hash_example ''8453'' None state0"
  let ?early = "\<lambda>w i. fst (?A w i) = Inr unresolved_reply \<and> pending unresolved_reply
      \<and> now (snd (?A w i)) - now (snd (?A w 0)) < 60000"
  have c: "getChainId world_example = Inr ''8453''" "getChainId world_bet_error = Inr ''8453''"
      "getChainId world_stalled = Inr ''8453''"
    by code_simp+
  have e0: "?early world_example 0" by code_simp
  have e1: "?early world_example 1" by code_simp
  have b0: "?early world_bet_error 0" by code_simp
  have s0: "?early world_stalled 0" by code_simp
  have s1: "?early world_stalled 1" by code_simp
  have last_example: "fst (?A world_example 2) = Inr resolved_reply"
    by code_simp
  have last_error: "fst (?A world_bet_error 1)
      = Inr \<lparr>reply_bet = None,
             reply_error = Some \<lparr>err_code = ''404'', err_message = ''not found''\<rparr>\<rparr>"
    by code_simp
  have last_stalled: "fst (?A world_stalled 2) = Inr unresolved_reply
      \<and> pending unresolved_reply
      \<and> 60000 \<le> now (snd (?A world_stalled 2)) - now (snd (?A world_stalled 0))"
    by code_simp
  have two: "i = 0 \<or> i = 1" if "i < 2" for i :: nat
    using that by auto
  have pre_example: "\<forall>i<2. \<exists>r. fst (?A world_example i) = Inr r \<and> pending r
      \<and> now (snd (?A world_example i)) - now (snd (?A world_example 0)) < 60000"
  proof (intro allI impI)
    fix i :: nat
    assume "i < 2"
    then have "i = 0 \<or> i = 1" by (rule two)
    then show "\<exists>r. fst (?A world_example i) = Inr r \<and> pending r
      \<and> now (snd (?A world_example i)) - now (snd (?A world_example 0)) < 60000"
    proof
      assume "i = 0"
      with e0 show ?thesis by blast
    next
      assume "i = 1"
      with e1 show ?thesis by blast
    qed
  qed
  have pre_error: "\<forall>i<1. \<exists>r. fst (?A world_bet_error i) = Inr r \<and> pending r
      \<and> now (snd (?A world_bet_error i)) - now (snd (?A world_bet_error 0)) < 60000"
  proof (intro allI impI)
    fix i :: nat
    assume "i < 1"
    then have "i = 0" by simp
    with b0 show "\<exists>r. fst (?A world_bet_error i) = Inr r \<and> pending r
      \<and> now (snd (?A world_bet_error i)) - now (snd (?A world_bet_error 0)) < 60000"
      by blast
  qed
  have pre_stalled: "\<forall>i<2. \<exists>r. fst (?A world_stalled i) = Inr r \<and> pending r
      \<and> now (snd (?A world_stalled i)) - now (snd (?A world_stalled 0)) < 60000"
  proof (intro allI impI)
    fix i :: nat
    assume "i < 2"
    then have "i = 0 \<or> i = 1" by (rule two)
    then show "\<exists>r. fst (?A world_stalled i) = Inr r \<and> pending r
      \<and> now (snd (?A world_stalled i)) - now (snd (?A world_stalled 0)) < 60000"
    proof
      assume "i = 0"
      with s0 show ?thesis by blast
    next
      assume "i = 1"
      with s1 show ?thesis by blast
    qed
  qed
  have resolved: "reply_error resolved_reply = None \<and> reply_bet resolved_reply = Some bet_example
      \<and> isResolved bet_example"
    by (simp add: resolved_reply_def bet_example_def)
  have failed: "reply_error \<lparr>reply_bet = None,
        reply_error = Some \<lparr>err_code = ''404'', err_message = ''not found''\<rparr>\<rparr>
      = Some \<lparr>err_code = ''404'', err_message = ''not found''\<rparr>"
    by simp
  note p1 = getBet_poller [OF c(1) pre_example last_example, of bet_example sdk_example]
  note p2 = getBet_poller [OF c(2) pre_error last_error, of _ sdk_example]
  note p3 = getBet_poller [OF c(3) pre_stalled conjunct1 [OF last_stalled], of _ sdk_example]
  have 1: "getBet sdk_example world_example hash_example None state0
     = (Inr (betDetails sdk_example ''8453'' bet_example), snd (?A world_example 2))"
    using p1 [THEN conjunct1] resolved by (rule mp)
  have 2: "getBet sdk_example world_bet_error hash_example None state0
     = (Inl (Error (''An error occured while getting the bet: Error: [''
          @ err_code \<lparr>err_code = ''404'', err_message = ''not found''\<rparr>
          @ ''] Error fetching bet: '' @ err_message \<lparr>err_code = ''404'', err_message = ''not found''\<rparr>)),
        snd (?A world_bet_error 1))"
    using p2 [THEN conjunct2, THEN conjunct1] failed by (rule mp)
  have 3: "getBet sdk_example world_stalled hash_example None state0
     = (Inl (Error ''An error occured while getting the bet: Error: Timeout: Bet data retrieval exceeded 1 minute.''),
        snd (?A world_stalled 2))"
    using p3 [THEN conjunct2, THEN conjunct2, THEN conjunct1] conjunct2 [OF last_stalled] by (rule mp)
  from 2 have e2: "getBet sdk_example world_bet_error hash_example None state0
     = (Inl (Error ''An error occured while getting the bet: Error: [404] Error fetching bet: not found''),
        snd (?A world_bet_error 1))"
    by simp
  from 1 e2 3 show ?thesis by (intro conjI)
qed


end
